theory Spec2Isabelle
  imports Main "HOL-Library.Word" "HOL-Library.AList" "HOL-Library.Multiset"
begin

section \<open>Engine types and operations used by the plugin\<close>

text \<open>
  The plugin is built on top of a game engine and of a codec library. Their value types
  are modelled as follows: a 32-bit integer (\<open>int32\<close>, \<open>uint32\<close>) is a \<open>32 word\<close>, so
  that \<open>+\<close> wraps; a floating-point number is a value of an arbitrary type \<open>'f\<close>; an
  interned name (\<open>FName\<close>) is a value of an arbitrary type \<open>'n\<close>; a transform
  (\<open>FTransform\<close>) is a value of an arbitrary type \<open>'t\<close>. The engine's functions on these
  types are not part of the plugin: every plugin function that calls one takes the
  record \<open>engine\<close> of them as its first argument, and every theorem holds for all engines.

  A class or struct of the plugin is a record with the members of the source. Where two
  classes have a member of the same name, the member of the class that is declared
  earlier is written with the name of its record in front
  (\<open>FAssimpMesh.vertices\<close>, \<open>FRuntimeMeshImportSectionInfo.triangles\<close>). Five members
  have another name than in the source, because their name is taken: \<open>file'\<close>,
  \<open>sections'\<close>, \<open>numGatherPerTick'\<close> and \<open>param'\<close> (of the asynchronous parameters), and
  \<open>scene_member\<close> (the scene of the exporter). The size of an array and an index into an
  array are natural numbers; a function that can stop the program (a failed \<open>check\<close>, a
  read beyond the end of an array) returns an option, and \<open>None\<close> is the stop.
\<close>

type_synonym int32 = "32 word"

datatype 'f FVector = FVector 'f 'f 'f

datatype 'f FVector2D = FVector2D 'f 'f

datatype 'f FLinearColor = FLinearColor 'f 'f 'f 'f

datatype FColor = FColor "8 word" "8 word" "8 word" "8 word"

datatype 'f FQuat = FQuat 'f 'f 'f 'f

text \<open>\<open>FRotator(Pitch, Yaw, Roll)\<close>.\<close>

datatype 'f FRotator = FRotator 'f 'f 'f

text \<open>\<open>FMatrix\<close>: the element \<open>M[i][j]\<close> is \<open>m i j\<close>.\<close>

type_synonym 'f FMatrix = "nat \<Rightarrow> nat \<Rightarrow> 'f"

text \<open>A material handle (\<open>UMaterialInterface*\<close>) is an address, or \<open>None\<close> for \<open>nullptr\<close>.\<close>

type_synonym UMaterialInterface_ptr = "nat option"

text \<open>
  The engine's functions. \<open>flt k\<close> is the floating-point literal of the integer \<open>k\<close>
  (\<open>-1.f\<close>, \<open>0.f\<close>, \<open>90.f\<close>), \<open>fmul\<close>, \<open>fneg\<close> and \<open>fless\<close> are the floating-point
  product, negation and comparison. \<open>Mul a b\<close> is \<open>a * b\<close> on transforms.
  \<open>UMaterialInterface_GetName\<close> gives the name of the material object at an address.
  \<open>ParseIntoArray s delim bCullEmpty\<close> is the array that \<open>s.ParseIntoArray\<close> fills.
\<close>

record ('f, 'n, 't) engine =
  FName_of_string :: "string \<Rightarrow> 'n"
  NAME_None :: "'n"
  ToString :: "'n \<Rightarrow> string"
  flt :: "int \<Rightarrow> 'f"
  fmul :: "'f \<Rightarrow> 'f \<Rightarrow> 'f"
  fneg :: "'f \<Rightarrow> 'f"
  fless :: "'f \<Rightarrow> 'f \<Rightarrow> bool"
  FTransform_Identity :: "'t"
  Inverse :: "'t \<Rightarrow> 't"
  Mul :: "'t \<Rightarrow> 't \<Rightarrow> 't"
  GetScale3D :: "'t \<Rightarrow> 'f FVector"
  SetScale3D :: "'t \<Rightarrow> 'f FVector \<Rightarrow> 't"
  ConcatenateRotation :: "'t \<Rightarrow> 'f FQuat \<Rightarrow> 't"
  Quaternion :: "'f FRotator \<Rightarrow> 'f FQuat"
  ToMatrixWithScale :: "'t \<Rightarrow> 'f FMatrix"
  FTransform_of_matrix :: "'f FMatrix \<Rightarrow> 't"
  FMatrix_Inverse :: "'f FMatrix \<Rightarrow> 'f FMatrix"
  FMatrix_GetTransposed :: "'f FMatrix \<Rightarrow> 'f FMatrix"
  TransformPosition :: "'t \<Rightarrow> 'f FVector \<Rightarrow> 'f FVector"
  TransformVector :: "'t \<Rightarrow> 'f FVector \<Rightarrow> 'f FVector"
  TransformVectorNoScale :: "'t \<Rightarrow> 'f FVector \<Rightarrow> 'f FVector"
  GetSafeNormal :: "'f FVector \<Rightarrow> 'f FVector"
  ReinterpretAsLinear :: "FColor \<Rightarrow> 'f FLinearColor"
  UMaterialInterface_GetName :: "nat \<Rightarrow> string"
  ParseIntoArray :: "string \<Rightarrow> string \<Rightarrow> bool \<Rightarrow> string list"

definition INDEX_NONE :: int32 where
  "INDEX_NONE = - 1"

section \<open>Import sections (RuntimeMeshImportExportTypes)\<close>

record ('f, 'n) FRuntimeMeshImportSectionInfo =
  materialName :: "'n"
  materialIndex :: int32
  vertices :: "'f FVector list"
  triangles :: "int32 list"
  normals :: "'f FVector list"
  uv0 :: "'f FVector2D list"
  vertexColors :: "'f FLinearColor list"
  tangents :: "'f FVector list"
  BoneInfo :: "(string \<times> (int32 \<times> 'f) list) list"

text \<open>\<open>URuntimeMeshImportExportLibrary::OffsetTriangleArray\<close>: adds the offset to every index, in place.\<close>

definition OffsetTriangleArray :: "int32 \<Rightarrow> int32 list \<Rightarrow> int32 list" where
  "OffsetTriangleArray offset tris = map (\<lambda>index. index + offset) tris"

text \<open>
  \<open>FRuntimeMeshImportSectionInfo::Append_Move\<close>. The receiver and the argument are both
  changed: the result is the pair (receiver, argument) after the call. An array that is
  appended with \<open>MoveTemp\<close> is left empty in the argument.
\<close>

definition Append_Move ::
  "('f, 'n, 't) engine \<Rightarrow> ('f, 'n) FRuntimeMeshImportSectionInfo \<Rightarrow> ('f, 'n) FRuntimeMeshImportSectionInfo
    \<Rightarrow> ('f, 'n) FRuntimeMeshImportSectionInfo \<times> ('f, 'n) FRuntimeMeshImportSectionInfo" where
  "Append_Move E this other =
    (let other1 = other\<lparr>triangles := OffsetTriangleArray (of_nat (length (vertices this))) (triangles other)\<rparr>;
         this1 = this\<lparr>vertices := vertices this @ vertices other1,
                      normals := normals this @ normals other1,
                      tangents := tangents this @ tangents other1,
                      vertexColors := vertexColors this @ vertexColors other1,
                      uv0 := uv0 this @ uv0 other1,
                      triangles := triangles this @ triangles other1\<rparr>;
         other2 = other1\<lparr>vertices := [], normals := [], tangents := [], vertexColors := [],
                        uv0 := [], triangles := []\<rparr>;
         this2 = this1\<lparr>materialName :=
                         (if materialName this1 = materialName other2 then materialName this1 else NAME_None E),
                       materialIndex :=
                         (if materialIndex this1 = materialIndex other2 then materialIndex this1 else INDEX_NONE)\<rparr>;
         other3 = other2\<lparr>materialName := NAME_None E, materialIndex := INDEX_NONE\<rparr>
     in (this2, other3))"

text \<open>\<open>MergeAllSections\<close>: every section after the first is appended to the first one.\<close>

fun MergeAllSections_loop ::
  "('f, 'n, 't) engine \<Rightarrow> ('f, 'n) FRuntimeMeshImportSectionInfo \<Rightarrow> ('f, 'n) FRuntimeMeshImportSectionInfo list
    \<Rightarrow> ('f, 'n) FRuntimeMeshImportSectionInfo" where
  "MergeAllSections_loop E first [] = first"
| "MergeAllSections_loop E first (s # rest) = MergeAllSections_loop E (fst (Append_Move E first s)) rest"

definition MergeAllSections ::
  "('f, 'n, 't) engine \<Rightarrow> ('f, 'n) FRuntimeMeshImportSectionInfo list \<Rightarrow> ('f, 'n) FRuntimeMeshImportSectionInfo list" where
  "MergeAllSections E sectionInfos =
    (if length sectionInfos < 2 then sectionInfos
     else [MergeAllSections_loop E (hd sectionInfos) (tl sectionInfos)])"

text \<open>
  \<open>MergeSectionsSameMaterial\<close>. The map from material names to sections keeps its keys in
  the order in which they were added; the sections are taken from the last to the first.
  \<open>FindOrAdd\<close> gives a new key a section without vertices, and a section without
  vertices under a key is overwritten.
\<close>

definition MergeSectionsSameMaterial_body ::
  "('f, 'n, 't) engine \<Rightarrow> ('f, 'n) FRuntimeMeshImportSectionInfo
    \<Rightarrow> ('n \<times> ('f, 'n) FRuntimeMeshImportSectionInfo) list
    \<Rightarrow> ('n \<times> ('f, 'n) FRuntimeMeshImportSectionInfo) list" where
  "MergeSectionsSameMaterial_body E sectionInfo map_MatName_Mesh =
    (case map_of map_MatName_Mesh (materialName sectionInfo) of
       None \<Rightarrow> AList.update (materialName sectionInfo) sectionInfo map_MatName_Mesh
     | Some meshInfoRef \<Rightarrow>
         if length (vertices meshInfoRef) = 0
         then AList.update (materialName sectionInfo) sectionInfo map_MatName_Mesh
         else AList.update (materialName sectionInfo) (fst (Append_Move E meshInfoRef sectionInfo))
                map_MatName_Mesh)"

definition MergeSectionsSameMaterial ::
  "('f, 'n, 't) engine \<Rightarrow> ('f, 'n) FRuntimeMeshImportSectionInfo list \<Rightarrow> ('f, 'n) FRuntimeMeshImportSectionInfo list" where
  "MergeSectionsSameMaterial E sectionInfos =
    map snd (fold (MergeSectionsSameMaterial_body E) (rev sectionInfos) [])"

section \<open>Importing the meshes of a node (RuntimeMeshImportExportLibrary)\<close>

text \<open>
  A mesh, a node and a scene as the codec hands them over. An array of the codec is a
  list, and its count is the length of the list: \<open>mNumVertices\<close> is the length of
  \<open>mVertices\<close>, \<open>mNumFaces\<close> that of \<open>mFaces\<close>, and a face is the list of its
  \<open>mNumIndices\<close> indices. An array that the codec may leave out is \<open>None\<close> when its
  pointer is null, and has \<open>mNumVertices\<close> elements otherwise. Of a material only the
  name is read here.
\<close>

record 'f aiMesh =
  mVertices :: "'f FVector list"
  mNormals :: "'f FVector list option"
  mTangents :: "'f FVector list option"
  mBitangents :: "'f FVector list option"
  mTextureCoords0 :: "'f FVector list option"
  mColors0 :: "'f FLinearColor list option"
  mFaces :: "int32 list list"
  mMaterialIndex :: nat

record aiNode =
  mName :: string
  mMeshes :: "nat list"

record 'f aiScene =
  mMeshes :: "'f aiMesh list"
  mMaterials :: "string list"

record ('f, 'n) FRuntimeMeshImportMeshInfo =
  meshName :: "'n"
  sections' :: "('f, 'n) FRuntimeMeshImportSectionInfo list"

text \<open>The triangle loop of \<open>ImportMeshesOfNode\<close>; \<open>check(numIndices == 3)\<close> stops the program.\<close>

fun ImportMeshesOfNode_faces :: "bool \<Rightarrow> int32 list list \<Rightarrow> int32 list \<Rightarrow> int32 list option" where
  "ImportMeshesOfNode_faces bFlipTriangleWindingOrder [] tris = Some tris"
| "ImportMeshesOfNode_faces bFlipTriangleWindingOrder (face # fs) tris =
    (if length face \<noteq> 3 then None
     else if bFlipTriangleWindingOrder
     then ImportMeshesOfNode_faces bFlipTriangleWindingOrder fs (tris @ [face ! 0, face ! 2, face ! 1])
     else ImportMeshesOfNode_faces bFlipTriangleWindingOrder fs (tris @ [face ! 0, face ! 1, face ! 2]))"

text \<open>
  The body of the loop of \<open>ImportMeshesOfNode\<close> over the meshes of a node: one mesh of
  the scene becomes one section. A material index outside the materials of the scene
  stops the program.
\<close>

definition ImportMeshesOfNode_section ::
  "('f, 'n, 't) engine \<Rightarrow> 'f aiScene \<Rightarrow> 'f aiMesh \<Rightarrow> 't \<Rightarrow> ('f, 'n) FRuntimeMeshImportSectionInfo option" where
  "ImportMeshesOfNode_section E scene mesh nodeTransform =
    (let transform = nodeTransform;
         mNumVertices = length (mVertices mesh);
         transformForNormal =
           FTransform_of_matrix E (FMatrix_GetTransposed E (FMatrix_Inverse E (ToMatrixWithScale E transform)));
         bFlipTriangleWindingOrder =
           (case GetScale3D E transform of
              FVector x y z \<Rightarrow> fless E (fmul E (fmul E x y) z) (flt E 0))
     in if \<not> mMaterialIndex mesh < length (mMaterials scene) then None
        else
          case ImportMeshesOfNode_faces bFlipTriangleWindingOrder (mFaces mesh) [] of
            None \<Rightarrow> None
          | Some tris \<Rightarrow>
              Some \<lparr>materialName = FName_of_string E (mMaterials scene ! mMaterialIndex mesh),
                    materialIndex = of_nat (mMaterialIndex mesh),
                    vertices = map (TransformPosition E transform) (mVertices mesh),
                    triangles = tris,
                    normals =
                      (case mNormals mesh of
                         Some ns \<Rightarrow>
                           if 0 < mNumVertices
                           then map (\<lambda>i. GetSafeNormal E (TransformVector E transformForNormal (ns ! i)))
                                  [0..<mNumVertices]
                           else replicate mNumVertices (FVector (flt E 0) (flt E 0) (flt E 0))
                       | None \<Rightarrow> replicate mNumVertices (FVector (flt E 0) (flt E 0) (flt E 0))),
                    uv0 =
                      (case mTextureCoords0 mesh of
                         Some uvs \<Rightarrow>
                           map (\<lambda>i. case uvs ! i of FVector x y z \<Rightarrow> FVector2D x (fneg E y)) [0..<mNumVertices]
                       | None \<Rightarrow> []),
                    vertexColors =
                      (case mColors0 mesh of
                         Some cs \<Rightarrow> map (\<lambda>i. cs ! i) [0..<mNumVertices]
                       | None \<Rightarrow> []),
                    tangents =
                      (case (mTangents mesh, mBitangents mesh) of
                         (Some ts, Some bs) \<Rightarrow>
                           map (\<lambda>i. GetSafeNormal E (TransformVectorNoScale E transform (ts ! i)))
                             [0..<mNumVertices]
                       | _ \<Rightarrow> []),
                    BoneInfo = []\<rparr>)"

text \<open>
  \<open>ImportMeshesOfNode\<close>: the array \<open>result.meshInfos\<close> after the call. A mesh index of the
  node outside the meshes of the scene stops the program.
\<close>

fun ImportMeshesOfNode_sections ::
  "('f, 'n, 't) engine \<Rightarrow> 'f aiScene \<Rightarrow> 't \<Rightarrow> nat list \<Rightarrow> ('f, 'n) FRuntimeMeshImportSectionInfo list option" where
  "ImportMeshesOfNode_sections E scene nodeTransform [] = Some []"
| "ImportMeshesOfNode_sections E scene nodeTransform (sceneMeshIndex # rest) =
    (if \<not> sceneMeshIndex < length (aiScene.mMeshes scene) then None
     else case ImportMeshesOfNode_section E scene (aiScene.mMeshes scene ! sceneMeshIndex) nodeTransform of
            None \<Rightarrow> None
          | Some sec \<Rightarrow>
              (case ImportMeshesOfNode_sections E scene nodeTransform rest of
                 None \<Rightarrow> None
               | Some secs \<Rightarrow> Some (sec # secs)))"

definition ImportMeshesOfNode ::
  "('f, 'n, 't) engine \<Rightarrow> 'f aiScene \<Rightarrow> aiNode \<Rightarrow> ('f, 'n) FRuntimeMeshImportMeshInfo list \<Rightarrow> 't
    \<Rightarrow> ('f, 'n) FRuntimeMeshImportMeshInfo list option" where
  "ImportMeshesOfNode E scene node meshInfos nodeTransform =
    (if length (aiNode.mMeshes node) = 0 then Some meshInfos
     else case ImportMeshesOfNode_sections E scene nodeTransform (aiNode.mMeshes node) of
            None \<Rightarrow> None
          | Some secs \<Rightarrow> Some (meshInfos @ [\<lparr>meshName = FName_of_string E (mName node), sections' = secs\<rparr>]))"

section \<open>Meshes and materials of the scene (AssimpCustom)\<close>

datatype aiPrimitiveType =
  aiPrimitiveType_POINT | aiPrimitiveType_LINE | aiPrimitiveType_TRIANGLE | aiPrimitiveType_POLYGON

text \<open>
  \<open>FAssimpMesh\<close>. \<open>mPrimitiveTypes\<close>, \<open>mMaterialIndex\<close>, \<open>mNumVertices\<close> and \<open>mNumFaces\<close>
  are members of the base class \<open>aiMesh\<close>; \<open>mPrimitiveTypes\<close> is the set of the flags that
  are set. Of the texture coordinate channels only channel 0 is ever written. A face is
  the list of its indices.
\<close>

record 'f FAssimpMesh =
  mPrimitiveTypes :: "aiPrimitiveType set"
  mMaterialIndex :: nat
  mNumVertices :: nat
  mNumFaces :: nat
  vertices :: "'f FVector list"
  normals :: "'f FVector list"
  tangents :: "'f FVector list"
  bitangents :: "'f FVector list"
  textureCoordinates :: "'f FVector list"
  numUVComponents :: nat
  vertexColors :: "'f FLinearColor list"
  faces :: "int32 list list"

text \<open>A material of the codec library is the list of the properties added to it.\<close>

datatype 'f aiMaterialProperty =
  AI_MATKEY_NAME string
| AI_MATKEY_TWOSIDED int
| AI_MATKEY_SHININESS 'f
| AI_MATKEY_TEXTURE_DIFFUSE nat string

type_synonym 'f aiMaterial = "'f aiMaterialProperty list"

section \<open>Export sections (RuntimeMeshImportExportTypes)\<close>

record ('f, 't) FExportableMeshSection =
  meshToWorld :: "'t"
  material :: UMaterialInterface_ptr
  vertices :: "'f FVector list"
  normals :: "'f FVector list"
  tangents :: "'f FVector list"
  textureCoordinates :: "'f FVector2D list"
  vertexColors :: "FColor list"
  triangles :: "int32 list"

text \<open>
  \<open>FExportableMeshSection::Append\<close>. \<open>check(material == other.material)\<close> stops the
  program when the materials differ: the result is \<open>None\<close> then. Otherwise the result is
  the receiver after the call; the argument is read only.
\<close>

definition Append ::
  "('f, 't) FExportableMeshSection \<Rightarrow> ('f, 't) FExportableMeshSection \<Rightarrow> ('f, 't) FExportableMeshSection option" where
  "Append this other =
    (if material this \<noteq> material other then None
     else
       let triangleOffset = (of_nat (length (vertices this)) :: int32)
       in Some (this\<lparr>vertices := vertices this @ vertices other,
                      normals := normals this @ normals other,
                      tangents := tangents this @ tangents other,
                      textureCoordinates := textureCoordinates this @ textureCoordinates other,
                      vertexColors := vertexColors this @ vertexColors other,
                      triangles := triangles this @ map (\<lambda>tri. tri + triangleOffset) (triangles other)\<rparr>))"

section \<open>Validation of a gathered section (AssimpCustom)\<close>

text \<open>
  \<open>FAssimpNode::ValidateMeshSection\<close>. The function also writes one line to the export log
  for every check that fails; the log is a write-only sink and is left out of the model.
\<close>

definition ValidateMeshSection :: "('f, 't) FExportableMeshSection \<Rightarrow> bool" where
  "ValidateMeshSection sec =
    (let bMeshValid = True;
         numVertices = length (vertices sec);
         bMeshValid = (if length (normals sec) \<noteq> numVertices then False else bMeshValid);
         bMeshValid = (if length (tangents sec) \<noteq> numVertices then False else bMeshValid);
         bMeshValid = (if length (vertexColors sec) \<noteq> numVertices then False else bMeshValid);
         bMeshValid = (if length (textureCoordinates sec) \<noteq> numVertices then False else bMeshValid);
         bMeshValid = (if length (triangles sec) mod 3 \<noteq> 0 then False else bMeshValid)
     in bMeshValid)"


section \<open>Geometry sources (MeshExportable)\<close>

text \<open>
  An object that implements \<open>IMeshExportable\<close>. \<open>GetMeshData lod bSkipLodNotValid\<close> is the
  answer of the object: the returned flag and the sections it left in the out parameter,
  which is empty when the call starts.
\<close>

record ('f, 't) IMeshExportable =
  GetHierarchicalNodeName :: string
  GetMeshData :: "int32 \<Rightarrow> bool \<Rightarrow> bool \<times> ('f, 't) FExportableMeshSection list"

section \<open>Export parameters (RuntimeMeshImportExportTypes)\<close>

datatype ERotationCorrection = Minus_90 | Zero | Plus_90

record 'f FTransformCorrection =
  bFlipX :: bool
  bFlipY :: bool
  bFlipZ :: bool
  RollCorrection_X :: ERotationCorrection
  PitchCorrection_Y :: ERotationCorrection
  YawCorrection_Z :: ERotationCorrection
  scaleFactor :: "'f"

record 'f FRuntimeMeshExportParam =
  bCombineSameMaterial :: bool
  lod :: int32
  bSkipLodNotValid :: bool
  formatId :: string
  file' :: string
  bOverrideExisting :: bool
  correction :: "'f FTransformCorrection"
  bLogToUnreal :: bool

text \<open>
  The result of an export (the member \<open>exportLog\<close> is left out with the export log),
  and the parameters of an asynchronous export.
\<close>

record FRuntimeMeshExportResult =
  bSuccess :: bool
  error :: string
  numObjectsSkipped :: int32

record 'f FRuntimeMeshExportAsyncParam =
  numGatherPerTick' :: int32
  param' :: "'f FRuntimeMeshExportParam"

section \<open>Scene nodes (AssimpCustom)\<close>

text \<open>The matrix of the codec library, with its sixteen fields.\<close>

record 'f aiMatrix4x4 =
  a1 :: "'f"  a2 :: "'f"  a3 :: "'f"  a4 :: "'f"
  b1 :: "'f"  b2 :: "'f"  b3 :: "'f"  b4 :: "'f"
  c1 :: "'f"  c2 :: "'f"  c3 :: "'f"  c4 :: "'f"
  d1 :: "'f"  d2 :: "'f"  d3 :: "'f"  d4 :: "'f"

text \<open>
  The members of \<open>FAssimpNode\<close> but its children and its parent. \<open>mName\<close>,
  \<open>mTransformation\<close>, \<open>mNumMeshes\<close> and \<open>mNumChildren\<close> are the members of the base class
  \<open>aiNode\<close> that the plugin sets; the pointers of the base class are addresses into the
  arrays of the node and are not modelled. Sizes and indices of arrays are natural numbers.
\<close>

record ('f, 'n, 't) FAssimpNode_members =
  name :: "'n"
  worldTransform :: "'t"
  exportObjects :: "('f, 't) IMeshExportable list"
  meshRefIndices :: "nat list"
  indexGatherNext :: nat
  gatheredExportables :: "('f, 't) FExportableMeshSection list list"
  mName :: string
  mTransformation :: "'f aiMatrix4x4"
  mNumMeshes :: nat
  mNumChildren :: nat

text \<open>
  A node owns its children, so the tree of nodes is a datatype. A pointer to a node of a
  tree is the list of child indices that leads from the root of the tree to the node
  (\<open>[]\<close> is the root): the plugin only ever appends to \<open>children\<close>, so this list names
  the same node for as long as the tree lives. The member \<open>parent\<close> of a node is the
  node one step up that path; the functions that read \<open>parent\<close> take it as an argument.
\<close>

datatype ('f, 'n, 't) FAssimpNode =
  FAssimpNode (members: "('f, 'n, 't) FAssimpNode_members") (children: "('f, 'n, 't) FAssimpNode list")

type_synonym FAssimpNode_ptr = "nat list"

fun node_at :: "('f, 'n, 't) FAssimpNode \<Rightarrow> FAssimpNode_ptr \<Rightarrow> ('f, 'n, 't) FAssimpNode option" where
  "node_at n [] = Some n"
| "node_at n (i # p) = (if i < length (children n) then node_at (children n ! i) p else None)"

text \<open>\<open>modify_at p f n\<close> is the tree \<open>n\<close> after \<open>f\<close> has changed the node that \<open>p\<close> points to.\<close>

fun modify_at ::
  "FAssimpNode_ptr \<Rightarrow> (('f, 'n, 't) FAssimpNode \<Rightarrow> ('f, 'n, 't) FAssimpNode) \<Rightarrow> ('f, 'n, 't) FAssimpNode
    \<Rightarrow> ('f, 'n, 't) FAssimpNode" where
  "modify_at [] f n = f n"
| "modify_at (i # p) f n =
    (if i < length (children n)
     then FAssimpNode (members n) ((children n)[i := modify_at p f (children n ! i)])
     else n)"

text \<open>The identity matrix, the value of a default-constructed \<open>aiMatrix4x4\<close>.\<close>

definition aiMatrix4x4_identity :: "('f, 'n, 't) engine \<Rightarrow> 'f aiMatrix4x4" where
  "aiMatrix4x4_identity E =
    \<lparr>a1 = flt E 1, a2 = flt E 0, a3 = flt E 0, a4 = flt E 0,
     b1 = flt E 0, b2 = flt E 1, b3 = flt E 0, b4 = flt E 0,
     c1 = flt E 0, c2 = flt E 0, c3 = flt E 1, c4 = flt E 0,
     d1 = flt E 0, d2 = flt E 0, d3 = flt E 0, d4 = flt E 1\<rparr>"

text \<open>
  \<open>new FAssimpNode(inName, inParent)\<close>: the constructor sets the name (and the parent);
  every other member has its default value.
\<close>

definition new_FAssimpNode :: "('f, 'n, 't) engine \<Rightarrow> 'n \<Rightarrow> ('f, 'n, 't) FAssimpNode" where
  "new_FAssimpNode E inName =
    FAssimpNode
      \<lparr>name = inName, worldTransform = FTransform_Identity E, exportObjects = [],
       meshRefIndices = [], indexGatherNext = 0, gatheredExportables = [],
       mName = [], mTransformation = aiMatrix4x4_identity E, mNumMeshes = 0, mNumChildren = 0\<rparr>
      []"

text \<open>
  \<open>TArray::FindByPredicate\<close> returns a pointer to the first element that satisfies the
  predicate, or \<open>nullptr\<close>: here the index of that element, or \<open>None\<close>.
\<close>

fun FindByPredicate :: "('a \<Rightarrow> bool) \<Rightarrow> 'a list \<Rightarrow> nat option" where
  "FindByPredicate P [] = None"
| "FindByPredicate P (x # xs) = (if P x then Some 0 else map_option Suc (FindByPredicate P xs))"

text \<open>
  \<open>FAssimpNode::FindOrCreateNode\<close>. The receiver is a node with the subtree it owns. The
  result is the receiver after the call and the pointer to the node that the function
  returns, relative to the receiver.
\<close>

fun FindOrCreateNode ::
  "('f, 'n, 't) engine \<Rightarrow> ('f, 'n, 't) FAssimpNode \<Rightarrow> string list
    \<Rightarrow> ('f, 'n, 't) FAssimpNode \<times> FAssimpNode_ptr" where
  "FindOrCreateNode E this [] = (this, [])"
| "FindOrCreateNode E this (seg # nodePathRelative) =
    (let nodeName = FName_of_string E seg;
         foundNode = FindByPredicate (\<lambda>child. name (members child) = nodeName) (children this)
     in case foundNode of
          Some i \<Rightarrow>
            (let (childNode, p) = FindOrCreateNode E (children this ! i) nodePathRelative
             in (FAssimpNode (members this) ((children this)[i := childNode]), i # p))
        | None \<Rightarrow>
            (let (childNode, p) = FindOrCreateNode E (new_FAssimpNode E nodeName) nodePathRelative
             in (FAssimpNode (members this) (children this @ [childNode]), length (children this) # p)))"

text \<open>
  \<open>FAssimpNode::GetHierarchicalName\<close>. The first argument is the chain of \<open>parent\<close>
  pointers of the receiver: its parent, the parent of its parent, and so on up to the
  root. The chain is empty when \<open>parent\<close> is \<open>nullptr\<close>.
\<close>

fun GetHierarchicalName ::
  "('f, 'n, 't) engine \<Rightarrow> ('f, 'n, 't) FAssimpNode list \<Rightarrow> ('f, 'n, 't) FAssimpNode \<Rightarrow> string" where
  "GetHierarchicalName E [] this = ''root''"
| "GetHierarchicalName E (parent # ancestors) this =
    GetHierarchicalName E ancestors parent @ ''.'' @ ToString E (name (members this))"

text \<open>
  The chain of \<open>parent\<close> pointers of the node that \<open>p\<close> points to in the tree \<open>root\<close>,
  given the chain \<open>acc\<close> of the root of that tree.
\<close>

fun parent_chain ::
  "('f, 'n, 't) FAssimpNode list \<Rightarrow> ('f, 'n, 't) FAssimpNode \<Rightarrow> FAssimpNode_ptr
    \<Rightarrow> ('f, 'n, 't) FAssimpNode list" where
  "parent_chain acc root [] = acc"
| "parent_chain acc root (i # p) = parent_chain (root # acc) (children root ! i) p"

text \<open>
  \<open>FAssimpNode::GetNodesRecursive\<close>. \<open>this\<close> is the pointer to the receiver; the pointer
  to its child number \<open>i\<close> is \<open>this @ [i]\<close>. The second function is the loop over the
  children, from the child number \<open>i\<close> on. No element of \<open>children\<close> is \<open>nullptr\<close>.
\<close>

fun GetNodesRecursive ::
    "FAssimpNode_ptr \<Rightarrow> ('f, 'n, 't) FAssimpNode \<Rightarrow> FAssimpNode_ptr list \<Rightarrow> FAssimpNode_ptr list"
  and GetNodesRecursive_children ::
    "FAssimpNode_ptr \<Rightarrow> nat \<Rightarrow> ('f, 'n, 't) FAssimpNode list \<Rightarrow> FAssimpNode_ptr list \<Rightarrow> FAssimpNode_ptr list"
  where
  "GetNodesRecursive this (FAssimpNode m cs) outNodes = GetNodesRecursive_children this 0 cs (outNodes @ [this])"
| "GetNodesRecursive_children this i [] outNodes = outNodes"
| "GetNodesRecursive_children this i (child # cs) outNodes =
    GetNodesRecursive_children this (Suc i) cs (GetNodesRecursive (this @ [i]) child outNodes)"

section \<open>The scene (AssimpCustom)\<close>

text \<open>
  \<open>FAssimpScene\<close>. \<open>mNumMeshes\<close> and \<open>mNumMaterials\<close> are members of the base class
  \<open>aiScene\<close>. The export log (\<open>exportLog\<close>, \<open>WriteToLogWithNewLine\<close>) is a write-only sink
  and is left out, and so are the delegates and the ticker object.
\<close>

record ('f, 'n, 't) FAssimpScene =
  rootNode :: "('f, 'n, 't) FAssimpNode"
  meshes :: "'f FAssimpMesh list"
  materials :: "'f aiMaterial list"
  uniqueMaterials :: "UMaterialInterface_ptr list"
  bLogToUnreal :: bool
  numObjectsSkipped :: int32
  allNodesHelper :: "FAssimpNode_ptr list"
  currentNodeIndex :: nat
  numGatherPerTick :: int32
  gatheredMeshNum :: nat
  mNumMeshes :: nat
  mNumMaterials :: nat

text \<open>A loop over a list whose body can stop the program (\<open>None\<close>).\<close>

fun for_each :: "('a \<Rightarrow> 's \<Rightarrow> 's option) \<Rightarrow> 'a list \<Rightarrow> 's \<Rightarrow> 's option" where
  "for_each body [] s = Some s"
| "for_each body (x # xs) s = (case body x s of None \<Rightarrow> None | Some s' \<Rightarrow> for_each body xs s')"

subsection \<open>Gathering\<close>

text \<open>
  The body of the loop of \<open>FAssimpNode::GatherMeshData\<close> for one object. The sections are
  validated from the last to the first.
\<close>

definition GatherMeshData_body ::
  "'f FRuntimeMeshExportParam \<Rightarrow> ('f, 'n, 't) FAssimpScene \<Rightarrow> ('f, 'n, 't) FAssimpNode_members
    \<Rightarrow> ('f, 't) IMeshExportable \<Rightarrow> ('f, 'n, 't) FAssimpScene \<times> ('f, 'n, 't) FAssimpNode_members" where
  "GatherMeshData_body param scene this object =
    (let (accepted, sections) = GetMeshData object (lod param) (bSkipLodNotValid param)
     in if \<not> accepted then (scene\<lparr>numObjectsSkipped := numObjectsSkipped scene + 1\<rparr>, this)
        else if length sections = 0 then (scene\<lparr>numObjectsSkipped := numObjectsSkipped scene + 1\<rparr>, this)
        else
          let bAllSectionsValid =
                foldr (\<lambda>sec bAllSectionsValid. if \<not> ValidateMeshSection sec then False else bAllSectionsValid)
                  sections True
          in if \<not> bAllSectionsValid then (scene\<lparr>numObjectsSkipped := numObjectsSkipped scene + 1\<rparr>, this)
             else (scene, this\<lparr>gatheredExportables := gatheredExportables this @ [sections]\<rparr>))"

text \<open>The loop of \<open>GatherMeshData\<close>; its variable is the member \<open>indexGatherNext\<close>.\<close>

function GatherMeshData_loop ::
  "'f FRuntimeMeshExportParam \<Rightarrow> int
    \<Rightarrow> ('f, 'n, 't) FAssimpScene \<times> ('f, 'n, 't) FAssimpNode_members \<times> nat
    \<Rightarrow> ('f, 'n, 't) FAssimpScene \<times> ('f, 'n, 't) FAssimpNode_members \<times> nat" where
  "GatherMeshData_loop param endIndex (scene, this, numGathered) =
    (if int (indexGatherNext this) < endIndex
     then
       let (scene', this') =
             GatherMeshData_body param scene this (exportObjects this ! indexGatherNext this)
       in GatherMeshData_loop param endIndex
            (scene', this'\<lparr>indexGatherNext := indexGatherNext this' + 1\<rparr>, numGathered + 1)
     else (scene, this, numGathered))"
  by pat_completeness auto
termination
  by (relation "measure (\<lambda>(param, endIndex, scene, this, numGathered). nat (endIndex - int (indexGatherNext this)))")
     (auto simp: GatherMeshData_body_def Let_def split: prod.splits if_splits)

text \<open>
  \<open>FAssimpNode::GatherMeshData\<close>. \<open>check(bGatherAll || numToGather > 0)\<close> stops the program
  when it fails. \<open>startIndex + numToGather\<close> is a 32-bit signed sum. The result is the
  scene and the receiver after the call, and the number of objects gathered.
\<close>

definition GatherMeshData ::
  "'f FRuntimeMeshExportParam \<Rightarrow> ('f, 'n, 't) FAssimpScene \<Rightarrow> ('f, 'n, 't) FAssimpNode_members
    \<Rightarrow> bool \<Rightarrow> int32
    \<Rightarrow> (('f, 'n, 't) FAssimpScene \<times> ('f, 'n, 't) FAssimpNode_members \<times> nat) option" where
  "GatherMeshData param scene this bGatherAll numToGather =
    (if \<not> (bGatherAll \<or> 0 < sint numToGather) then None
     else
       let numGathered = 0;
           startIndex = (if bGatherAll then 0 else indexGatherNext this);
           endIndex =
             min (if bGatherAll then int (length (exportObjects this))
                  else sint ((of_nat startIndex :: int32) + numToGather))
                 (int (length (exportObjects this)))
       in Some (GatherMeshData_loop param endIndex (scene, this, numGathered)))"

text \<open>
  \<open>node->GatherMeshData(*this, param, bGatherAll, numToGather)\<close> for a pointer into the
  tree of the scene. A pointer of \<open>allNodesHelper\<close> that points to no node stops the program.
\<close>

definition GatherMeshData_at ::
  "'f FRuntimeMeshExportParam \<Rightarrow> bool \<Rightarrow> int32 \<Rightarrow> FAssimpNode_ptr \<Rightarrow> ('f, 'n, 't) FAssimpScene
    \<Rightarrow> (('f, 'n, 't) FAssimpScene \<times> nat) option" where
  "GatherMeshData_at param bGatherAll numToGather node scene =
    (case node_at (rootNode scene) node of
       None \<Rightarrow> None
     | Some n \<Rightarrow>
         (case GatherMeshData param scene (members n) bGatherAll numToGather of
            None \<Rightarrow> None
          | Some (scene', this', numGathered) \<Rightarrow>
              Some (scene'\<lparr>rootNode := modify_at node (\<lambda>n. FAssimpNode this' (children n)) (rootNode scene')\<rparr>,
                    numGathered)))"

subsection \<open>Building the meshes\<close>

text \<open>
  The first loop of \<open>FAssimpNode::CreateAssimpMeshesFromMeshData\<close> transforms the
  vertices, normals and tangents of a section, from the last vertex to the first. Reading
  \<open>normals[i]\<close> or \<open>tangents[i]\<close> beyond the end of the array stops the program.
\<close>

definition TransformSection ::
  "('f, 'n, 't) engine \<Rightarrow> ('f, 'n, 't) FAssimpNode_members \<Rightarrow> ('f, 't) FExportableMeshSection
    \<Rightarrow> ('f, 't) FExportableMeshSection option" where
  "TransformSection E this sec =
    (let objectSpaceToNodeSpace = Mul E (meshToWorld sec) (Inverse E (worldTransform this));
         n = length (vertices sec)
     in if length (normals sec) < n \<or> length (tangents sec) < n then None
        else Some (sec\<lparr>vertices := map (TransformPosition E objectSpaceToNodeSpace) (vertices sec),
                        normals := map (TransformVector E objectSpaceToNodeSpace) (take n (normals sec))
                                   @ drop n (normals sec),
                        tangents := map (TransformVector E objectSpaceToNodeSpace) (take n (tangents sec))
                                    @ drop n (tangents sec)\<rparr>))"

text \<open>
  \<open>mapMaterialSections\<close> is a \<open>TMap\<close> from material handles to arrays of sections. Nothing
  is ever removed from it, so it keeps its keys in the order in which they were added:
  it is an association list. \<open>FindOrAdd\<close> adds a key with an empty array at the end when
  the key is new. The function below is the rest of the body of the first loop: it puts
  a transformed section into the map.
\<close>

definition AddToMaterialSections ::
  "'f FRuntimeMeshExportParam \<Rightarrow> ('f, 't) FExportableMeshSection
    \<Rightarrow> (UMaterialInterface_ptr \<times> ('f, 't) FExportableMeshSection list) list
    \<Rightarrow> (UMaterialInterface_ptr \<times> ('f, 't) FExportableMeshSection list) list option" where
  "AddToMaterialSections param sec mapMaterialSections =
    (let materialSections = (case map_of mapMaterialSections (material sec) of None \<Rightarrow> [] | Some v \<Rightarrow> v)
     in if bCombineSameMaterial param \<and> 0 < length materialSections
        then (case Append (materialSections ! 0) sec of
                None \<Rightarrow> None
              | Some merged \<Rightarrow>
                  Some (AList.update (material sec) (materialSections[0 := merged]) mapMaterialSections))
        else Some (AList.update (material sec) (materialSections @ [sec]) mapMaterialSections))"

text \<open>The faces of a mesh: the flat array of triangle indices cut into groups of 3.\<close>

definition faces_of_triangles :: "int32 list \<Rightarrow> int32 list list" where
  "faces_of_triangles tris =
    map (\<lambda>faceIndex. [tris ! (faceIndex * 3), tris ! (faceIndex * 3 + 1), tris ! (faceIndex * 3 + 2)])
      [0..<length tris div 3]"

definition assimpTexturePath :: string where
  "assimpTexturePath =
    ''E:'' @ [CHR 0x5C] @ ''Unreal Engine Projects'' @ [CHR 0x5C] @ ''ImportExportDemo'' @ [CHR 0x5C] @
    ''Export'' @ [CHR 0x5C] @ ''T_Chair_M.jpg''"

text \<open>
  The part of the second loop of \<open>CreateAssimpMeshesFromMeshData\<close> that finds the
  material index of a section. \<open>TArray::Find\<close> gives the index of the first element that
  is equal to the handle, or \<open>INDEX_NONE\<close> (here \<open>None\<close>). The \<open>check\<close> after the new
  material is added stops the program when it fails.
\<close>

definition AddMaterial ::
  "('f, 'n, 't) engine \<Rightarrow> ('f, 't) FExportableMeshSection \<Rightarrow> ('f, 'n, 't) FAssimpScene
    \<Rightarrow> (nat \<times> ('f, 'n, 't) FAssimpScene) option" where
  "AddMaterial E sec scene =
    (let foundMaterialIndex = FindByPredicate (\<lambda>m. m = material sec) (uniqueMaterials scene)
     in case foundMaterialIndex of
          None \<Rightarrow>
            (let meshMaterialIndex = length (uniqueMaterials scene);
                 scene1 = scene\<lparr>uniqueMaterials := uniqueMaterials scene @ [material sec]\<rparr>;
                 materialName = (case material sec of
                                   Some a \<Rightarrow> UMaterialInterface_GetName E a
                                 | None \<Rightarrow> ''Unknown'');
                 scene2 = scene1\<lparr>materials := materials scene1 @
                            [[AI_MATKEY_NAME materialName, AI_MATKEY_TWOSIDED 1,
                              AI_MATKEY_SHININESS (flt E 0),
                              AI_MATKEY_TEXTURE_DIFFUSE 0 assimpTexturePath]]\<rparr>
             in if length (uniqueMaterials scene2) \<noteq> length (materials scene2) then None
                else Some (meshMaterialIndex, scene2))
        | Some i \<Rightarrow> Some (i, scene))"

text \<open>
  The body of the second loop of \<open>CreateAssimpMeshesFromMeshData\<close>: one section becomes
  one mesh of the scene. The reads of \<open>vertexColors\<close> and \<open>textureCoordinates\<close> beyond
  their end and the \<open>check\<close> on the number of triangle indices stop the program.
\<close>

definition CreateAssimpMesh ::
  "('f, 'n, 't) engine \<Rightarrow> ('f, 't) FExportableMeshSection
    \<Rightarrow> ('f, 'n, 't) FAssimpScene \<times> ('f, 'n, 't) FAssimpNode_members
    \<Rightarrow> (('f, 'n, 't) FAssimpScene \<times> ('f, 'n, 't) FAssimpNode_members) option" where
  "CreateAssimpMesh E sec st =
    (let (scene, this) = st;
         this1 = this\<lparr>meshRefIndices := meshRefIndices this @ [length (meshes scene)]\<rparr>
     in case AddMaterial E sec scene of
          None \<Rightarrow> None
        | Some (meshMaterialIndex, scene1) \<Rightarrow>
            (let numVertices = length (vertices sec)
             in if length (vertexColors sec) < numVertices then None
                else if length (textureCoordinates sec) < numVertices then None
                else if length (triangles sec) mod 3 \<noteq> 0 then None
                else
                  let mesh =
                        \<lparr>mPrimitiveTypes = {aiPrimitiveType_TRIANGLE},
                         mMaterialIndex = meshMaterialIndex,
                         mNumVertices = 0,
                         mNumFaces = 0,
                         FAssimpMesh.vertices = vertices sec,
                         FAssimpMesh.normals = normals sec,
                         FAssimpMesh.tangents = tangents sec,
                         bitangents = replicate numVertices (FVector (flt E 0) (flt E 0) (flt E 0)),
                         FAssimpMesh.textureCoordinates =
                           map (\<lambda>coord. case coord of FVector2D x y \<Rightarrow> FVector x y (flt E 0))
                             (take numVertices (textureCoordinates sec)),
                         numUVComponents = 2,
                         FAssimpMesh.vertexColors =
                           map (ReinterpretAsLinear E) (take numVertices (vertexColors sec)),
                         faces = faces_of_triangles (triangles sec)\<rparr>
                  in Some (scene1\<lparr>meshes := meshes scene1 @ [mesh]\<rparr>, this1)))"

text \<open>
  \<open>FAssimpNode::CreateAssimpMeshesFromMeshData\<close>. The first loop runs over the sections
  of all gathered objects in order; the second loop runs over the map and, for each key,
  over its sections, that is over the sections of the map in order.
\<close>

definition CreateAssimpMeshesFromMeshData ::
  "('f, 'n, 't) engine \<Rightarrow> 'f FRuntimeMeshExportParam
    \<Rightarrow> ('f, 'n, 't) FAssimpScene \<Rightarrow> ('f, 'n, 't) FAssimpNode_members
    \<Rightarrow> (('f, 'n, 't) FAssimpScene \<times> ('f, 'n, 't) FAssimpNode_members) option" where
  "CreateAssimpMeshesFromMeshData E param scene this =
    (case for_each
            (\<lambda>sec mapMaterialSections.
               case TransformSection E this sec of
                 None \<Rightarrow> None
               | Some sec' \<Rightarrow> AddToMaterialSections param sec' mapMaterialSections)
            (concat (gatheredExportables this)) [] of
       None \<Rightarrow> None
     | Some mapMaterialSections \<Rightarrow>
         for_each (CreateAssimpMesh E) (concat (map snd mapMaterialSections))
           (scene, this\<lparr>gatheredExportables := []\<rparr>))"

text \<open>
  \<open>FAssimpNode::ProcessGatheredData_Internal\<close>: the meshes of the receiver are created,
  then the children are processed from the last to the first (the second function is
  that loop: it processes the rest of the list before its head). The result is the scene
  and the subtree of the receiver after the call.
\<close>

fun ProcessGatheredData_Internal ::
    "('f, 'n, 't) engine \<Rightarrow> 'f FRuntimeMeshExportParam \<Rightarrow> ('f, 'n, 't) FAssimpScene \<Rightarrow> ('f, 'n, 't) FAssimpNode
      \<Rightarrow> (('f, 'n, 't) FAssimpScene \<times> ('f, 'n, 't) FAssimpNode) option"
  and ProcessGatheredData_children ::
    "('f, 'n, 't) engine \<Rightarrow> 'f FRuntimeMeshExportParam \<Rightarrow> ('f, 'n, 't) FAssimpScene \<Rightarrow> ('f, 'n, 't) FAssimpNode list
      \<Rightarrow> (('f, 'n, 't) FAssimpScene \<times> ('f, 'n, 't) FAssimpNode list) option"
  where
  "ProcessGatheredData_Internal E param scene (FAssimpNode this cs) =
    (case CreateAssimpMeshesFromMeshData E param scene this of
       None \<Rightarrow> None
     | Some (scene1, this1) \<Rightarrow>
         (case ProcessGatheredData_children E param scene1 cs of
            None \<Rightarrow> None
          | Some (scene2, cs') \<Rightarrow> Some (scene2, FAssimpNode this1 cs')))"
| "ProcessGatheredData_children E param scene [] = Some (scene, [])"
| "ProcessGatheredData_children E param scene (child # cs) =
    (case ProcessGatheredData_children E param scene cs of
       None \<Rightarrow> None
     | Some (scene1, cs') \<Rightarrow>
         (case ProcessGatheredData_Internal E param scene1 child of
            None \<Rightarrow> None
          | Some (scene2, child') \<Rightarrow> Some (scene2, child' # cs')))"

text \<open>\<open>FAssimpNode::ProcessGatheredData_Recursive\<close>, called on the root node of the scene.\<close>

definition ProcessGatheredData_Recursive ::
  "('f, 'n, 't) engine \<Rightarrow> 'f FRuntimeMeshExportParam \<Rightarrow> ('f, 'n, 't) FAssimpScene
    \<Rightarrow> ('f, 'n, 't) FAssimpScene option" where
  "ProcessGatheredData_Recursive E param scene =
    (case ProcessGatheredData_Internal E param scene (rootNode scene) of
       None \<Rightarrow> None
     | Some (scene', root') \<Rightarrow> Some (scene'\<lparr>rootNode := root'\<rparr>))"



subsection \<open>Binding the scene to the base classes\<close>

text \<open>\<open>URuntimeMeshImportExportLibrary::RotationCorrectionToValue\<close>.\<close>

fun RotationCorrectionToValue :: "('f, 'n, 't) engine \<Rightarrow> ERotationCorrection \<Rightarrow> 'f" where
  "RotationCorrectionToValue E Minus_90 = flt E (- 90)"
| "RotationCorrectionToValue E Zero = flt E 0"
| "RotationCorrectionToValue E Plus_90 = flt E 90"

text \<open>\<open>URuntimeMeshImportExportLibrary::FTransformToAiTransform\<close>.\<close>

definition FTransformToAiTransform :: "('f, 'n, 't) engine \<Rightarrow> 't \<Rightarrow> 'f aiMatrix4x4" where
  "FTransformToAiTransform E transform =
    (let uMatrix = ToMatrixWithScale E transform
     in \<lparr>a1 = uMatrix 0 0, a2 = uMatrix 1 0, a3 = uMatrix 2 0, a4 = uMatrix 3 0,
         b1 = uMatrix 0 1, b2 = uMatrix 1 1, b3 = uMatrix 2 1, b4 = uMatrix 3 1,
         c1 = uMatrix 0 2, c2 = uMatrix 1 2, c3 = uMatrix 2 2, c4 = uMatrix 3 2,
         d1 = uMatrix 0 3, d2 = uMatrix 1 3, d3 = uMatrix 2 3, d4 = uMatrix 3 3\<rparr>)"

text \<open>
  The transform that \<open>FAssimpNode::SetDataAndPtrsToParentClass\<close> computes for the
  receiver. \<open>parent\<close> is the member \<open>parent\<close> of the receiver: \<open>None\<close> for \<open>nullptr\<close>.
\<close>

definition relativeTransform_of ::
  "('f, 'n, 't) engine \<Rightarrow> 'f FRuntimeMeshExportParam \<Rightarrow> ('f, 'n, 't) FAssimpNode_members option
    \<Rightarrow> ('f, 'n, 't) FAssimpNode_members \<Rightarrow> 't" where
  "relativeTransform_of E param parent this =
    (let relativeTransform = worldTransform this
     in case parent of
          Some p \<Rightarrow> Mul E (Inverse E (worldTransform p)) (worldTransform this)
        | None \<Rightarrow>
            (case GetScale3D E relativeTransform of
               FVector x y z \<Rightarrow>
                 (let x = fmul E x (scaleFactor (correction param));
                      y = fmul E y (scaleFactor (correction param));
                      z = fmul E z (scaleFactor (correction param));
                      x = (if bFlipX (correction param) then fmul E x (flt E (- 1)) else x);
                      y = (if bFlipY (correction param) then fmul E y (flt E (- 1)) else y);
                      z = (if bFlipZ (correction param) then fmul E z (flt E (- 1)) else z);
                      relativeTransform = SetScale3D E relativeTransform (FVector x y z);
                      deltaRot = FRotator (RotationCorrectionToValue E (PitchCorrection_Y (correction param)))
                                          (RotationCorrectionToValue E (YawCorrection_Z (correction param)))
                                          (RotationCorrectionToValue E (RollCorrection_X (correction param)))
                  in ConcatenateRotation E relativeTransform (Quaternion E deltaRot))))"

text \<open>\<open>FAssimpNode::SetDataAndPtrsToParentClass\<close>; every child has the receiver as its parent.\<close>

fun SetDataAndPtrsToParentClass ::
  "('f, 'n, 't) engine \<Rightarrow> 'f FRuntimeMeshExportParam \<Rightarrow> ('f, 'n, 't) FAssimpNode_members option
    \<Rightarrow> ('f, 'n, 't) FAssimpNode \<Rightarrow> ('f, 'n, 't) FAssimpNode" where
  "SetDataAndPtrsToParentClass E param parent (FAssimpNode this cs) =
    (let this1 = this\<lparr>mName := ToString E (name this),
                      mTransformation := FTransformToAiTransform E (relativeTransform_of E param parent this),
                      FAssimpNode_members.mNumMeshes := length (meshRefIndices this),
                      mNumChildren := length cs\<rparr>
     in FAssimpNode this1 (map (SetDataAndPtrsToParentClass E param (Some this1)) cs))"

text \<open>\<open>FAssimpMesh::SetDataAndPtrsToParentClass\<close>.\<close>

definition FAssimpMesh_SetDataAndPtrsToParentClass :: "'f FAssimpMesh \<Rightarrow> 'f FAssimpMesh" where
  "FAssimpMesh_SetDataAndPtrsToParentClass mesh =
    mesh\<lparr>mNumVertices := length (FAssimpMesh.vertices mesh), mNumFaces := length (faces mesh)\<rparr>"

text \<open>\<open>FAssimpScene::SetDataAndPtrsToParentClass_EntireScene\<close>.\<close>

definition SetDataAndPtrsToParentClass_EntireScene ::
  "('f, 'n, 't) engine \<Rightarrow> 'f FRuntimeMeshExportParam \<Rightarrow> ('f, 'n, 't) FAssimpScene \<Rightarrow> ('f, 'n, 't) FAssimpScene" where
  "SetDataAndPtrsToParentClass_EntireScene E param scene =
    scene\<lparr>mNumMeshes := length (meshes scene),
          mNumMaterials := length (materials scene),
          rootNode := SetDataAndPtrsToParentClass E param None (rootNode scene),
          meshes := map FAssimpMesh_SetDataAndPtrsToParentClass (meshes scene)\<rparr>"

subsection \<open>Preparing and clearing the scene\<close>

text \<open>
  \<open>FAssimpScene::PrepareSceneForExport\<close>: all objects of all nodes are gathered, node by
  node in the order of \<open>allNodesHelper\<close>; then the meshes are built and the scene is bound.
\<close>

definition PrepareSceneForExport ::
  "('f, 'n, 't) engine \<Rightarrow> 'f FRuntimeMeshExportParam \<Rightarrow> ('f, 'n, 't) FAssimpScene
    \<Rightarrow> ('f, 'n, 't) FAssimpScene option" where
  "PrepareSceneForExport E param scene =
    (let scene1 = scene\<lparr>numObjectsSkipped := 0\<rparr>;
         scene2 = scene1\<lparr>allNodesHelper := GetNodesRecursive [] (rootNode scene1) (allNodesHelper scene1)\<rparr>
     in case for_each (\<lambda>node s. map_option fst (GatherMeshData_at param True 0 node s))
               (allNodesHelper scene2) scene2 of
          None \<Rightarrow> None
        | Some scene3 \<Rightarrow>
            (case ProcessGatheredData_Recursive E param scene3 of
               None \<Rightarrow> None
             | Some scene4 \<Rightarrow> Some (SetDataAndPtrsToParentClass_EntireScene E param scene4)))"

text \<open>
  \<open>FAssimpScene::PrepareSceneForExport_Async_Start\<close>: the first step of an asynchronous
  export. The ticker that it creates calls the gathering of the next objects once per frame.
\<close>

definition PrepareSceneForExport_Async_Start ::
  "'f FRuntimeMeshExportAsyncParam \<Rightarrow> ('f, 'n, 't) FAssimpScene \<Rightarrow> ('f, 'n, 't) FAssimpScene" where
  "PrepareSceneForExport_Async_Start param scene =
    (let scene1 = scene\<lparr>numObjectsSkipped := 0, gatheredMeshNum := 0, currentNodeIndex := 0,
                          numGatherPerTick :=
                            (if sint (numGatherPerTick' param) < 1 then 1 else numGatherPerTick' param)\<rparr>
     in scene1\<lparr>allNodesHelper := GetNodesRecursive [] (rootNode scene1) (allNodesHelper scene1)\<rparr>)"

text \<open>\<open>FAssimpNode::ClearExportData\<close> (with \<open>ClearParentDataAndPtrs\<close> and \<open>ClearMeshData\<close>).\<close>

fun ClearExportData :: "('f, 'n, 't) FAssimpNode \<Rightarrow> ('f, 'n, 't) FAssimpNode" where
  "ClearExportData (FAssimpNode this cs) =
    FAssimpNode
      (this\<lparr>mNumChildren := 0, FAssimpNode_members.mNumMeshes := 0,
            indexGatherNext := 0, gatheredExportables := [], meshRefIndices := []\<rparr>)
      (map ClearExportData cs)"

text \<open>\<open>FAssimpScene::ClearSceneExportData\<close> (with the scene's \<open>ClearParentDataAndPtrs\<close> and \<open>ClearMeshData\<close>).\<close>

definition ClearSceneExportData :: "('f, 'n, 't) FAssimpScene \<Rightarrow> ('f, 'n, 't) FAssimpScene" where
  "ClearSceneExportData scene =
    scene\<lparr>currentNodeIndex := 0, numGatherPerTick := - 1,
          mNumMeshes := 0, mNumMaterials := 0,
          uniqueMaterials := [], meshes := [], materials := [],
          rootNode := ClearExportData (rootNode scene)\<rparr>"

text \<open>\<open>FAssimpScene::FAssimpScene\<close>: the scene of a new exporter.\<close>

definition new_FAssimpScene :: "('f, 'n, 't) engine \<Rightarrow> ('f, 'n, 't) FAssimpScene" where
  "new_FAssimpScene E =
    \<lparr>rootNode = new_FAssimpNode E (NAME_None E), meshes = [], materials = [], uniqueMaterials = [],
     bLogToUnreal = False, numObjectsSkipped = 0, allNodesHelper = [],
     currentNodeIndex = 0, numGatherPerTick = - 1, gatheredMeshNum = 0,
     mNumMeshes = 0, mNumMaterials = 0\<rparr>"

subsection \<open>What the specification says of a rejected source\<close>

text \<open>
  The sections that an object returns for the parameters of the export, and the
  condition of the specification under which the object is skipped: it refuses the
  request, or it returns an empty list, or at least one of its sections is invalid.
\<close>

definition returned_sections ::
  "'f FRuntimeMeshExportParam \<Rightarrow> ('f, 't) IMeshExportable \<Rightarrow> ('f, 't) FExportableMeshSection list" where
  "returned_sections param object = snd (GetMeshData object (lod param) (bSkipLodNotValid param))"

definition source_is_skipped :: "'f FRuntimeMeshExportParam \<Rightarrow> ('f, 't) IMeshExportable \<Rightarrow> bool" where
  "source_is_skipped param object =
    (\<not> fst (GetMeshData object (lod param) (bSkipLodNotValid param)) \<or>
     returned_sections param object = [] \<or>
     (\<exists>sec \<in> set (returned_sections param object). \<not> ValidateMeshSection sec))"

subsection \<open>What the specification says of the pools of a scene\<close>

text \<open>
  The invariant of the specification: the scene has as many materials as unique
  material handles, and the material index of every mesh is an index into the materials.
\<close>

definition materials_consistent :: "('f, 'n, 't) FAssimpScene \<Rightarrow> bool" where
  "materials_consistent scene =
    (length (materials scene) = length (uniqueMaterials scene) \<and>
     (\<forall>mesh \<in> set (meshes scene). mMaterialIndex mesh < length (materials scene)))"

section \<open>The exporter (RuntimeMeshExporter)\<close>

datatype aiReturn = aiReturn_SUCCESS | aiReturn_FAILURE | aiReturn_OUTOFMEMORY

text \<open>
  What the call of the codec (\<open>Assimp::Exporter::Export\<close>) does: it returns a status, or
  it throws an exception with a message.
\<close>

datatype codec_result = Returned aiReturn | Threw string

text \<open>
  The file system and the codec. \<open>codec_Export scene formatId file\<close> is the outcome of
  the call of the codec, \<open>codec_GetErrorString scene formatId file\<close> the error string of
  the codec after that call.
\<close>

record ('f, 'n, 't) platform =
  FileExists :: "string \<Rightarrow> bool"
  CreateDirectoryTree :: "string \<Rightarrow> bool"
  GetPath :: "string \<Rightarrow> string"
  codec_Export :: "('f, 'n, 't) FAssimpScene \<Rightarrow> string \<Rightarrow> string \<Rightarrow> codec_result"
  codec_GetErrorString :: "('f, 'n, 't) FAssimpScene \<Rightarrow> string \<Rightarrow> string \<Rightarrow> string"

text \<open>
  \<open>URuntimeMeshExporter\<close>. The loggers and the delegates are left out. The exporter owns
  its scene, so the scene is a member of the record.
\<close>

record ('f, 'n, 't) URuntimeMeshExporter =
  bIsExporting :: bool
  scene_member :: "('f, 'n, 't) FAssimpScene"
  aiExporterReturn :: aiReturn
  aiExporterError :: string
  asyncResult :: FRuntimeMeshExportResult

text \<open>\<open>URuntimeMeshImportExportLibrary::NewLineAndAppend\<close>.\<close>

definition NewLineAndAppend :: "string \<Rightarrow> string \<Rightarrow> string" where
  "NewLineAndAppend appendTo appended =
    (if appendTo \<noteq> [] \<and> last appendTo \<noteq> CHR 0x0A then appendTo @ [CHR 0x0A] else appendTo) @ appended"

text \<open>An exporter as its constructor leaves it.\<close>

definition new_URuntimeMeshExporter :: "('f, 'n, 't) engine \<Rightarrow> ('f, 'n, 't) URuntimeMeshExporter" where
  "new_URuntimeMeshExporter E =
    \<lparr>bIsExporting = False, scene_member = new_FAssimpScene E, aiExporterReturn = aiReturn_FAILURE,
     aiExporterError = [], asyncResult = \<lparr>bSuccess = False, error = [], numObjectsSkipped = 0\<rparr>\<rparr>"

text \<open>\<open>URuntimeMeshExporter::AddNode\<close>.\<close>

definition AddNode ::
  "('f, 'n, 't) engine \<Rightarrow> string \<Rightarrow> 't \<Rightarrow> ('f, 'n, 't) URuntimeMeshExporter \<Rightarrow> ('f, 'n, 't) URuntimeMeshExporter" where
  "AddNode E hierarchicalName nodeTransformWS exporter =
    (if bIsExporting exporter then exporter
     else
       let nodeList = ParseIntoArray E hierarchicalName ''.'' True;
           (root, foundNode) = FindOrCreateNode E (rootNode (scene_member exporter)) nodeList;
           root' = modify_at foundNode
                     (\<lambda>n. FAssimpNode ((members n)\<lparr>worldTransform := nodeTransformWS\<rparr>) (children n)) root
       in exporter\<lparr>scene_member := (scene_member exporter)\<lparr>rootNode := root'\<rparr>\<rparr>)"

text \<open>\<open>URuntimeMeshExporter::AddExportObject\<close>.\<close>

definition AddExportObject ::
  "('f, 'n, 't) engine \<Rightarrow> ('f, 't) IMeshExportable \<Rightarrow> bool \<Rightarrow> string
    \<Rightarrow> ('f, 'n, 't) URuntimeMeshExporter \<Rightarrow> ('f, 'n, 't) URuntimeMeshExporter" where
  "AddExportObject E exportable bOverrideNode hierarchicalNodeName exporter =
    (if bIsExporting exporter then exporter
     else
       let nodeList = ParseIntoArray E
                        (if bOverrideNode then hierarchicalNodeName else GetHierarchicalNodeName exportable)
                        ''.'' True;
           (root, foundNode) = FindOrCreateNode E (rootNode (scene_member exporter)) nodeList;
           root' = modify_at foundNode
                     (\<lambda>n. FAssimpNode ((members n)\<lparr>exportObjects := exportObjects (members n) @ [exportable]\<rparr>)
                            (children n)) root
       in exporter\<lparr>scene_member := (scene_member exporter)\<lparr>rootNode := root'\<rparr>\<rparr>)"

text \<open>\<open>URuntimeMeshExporter::AddExportObjects\<close>.\<close>

definition AddExportObjects ::
  "('f, 'n, 't) engine \<Rightarrow> ('f, 't) IMeshExportable list \<Rightarrow> bool \<Rightarrow> string
    \<Rightarrow> ('f, 'n, 't) URuntimeMeshExporter \<Rightarrow> ('f, 'n, 't) URuntimeMeshExporter" where
  "AddExportObjects E exportables bOverrideNode hierarchicalNodeName exporter =
    (if bIsExporting exporter then exporter
     else fold (\<lambda>object. AddExportObject E object bOverrideNode hierarchicalNodeName) exportables exporter)"

text \<open>
  \<open>URuntimeMeshExporter::AddObjectIfExportable\<close>. A \<open>UObject\<close> either implements the
  interface \<open>MeshExportable\<close> (\<open>Some\<close>) or does not (\<open>None\<close>).
\<close>

type_synonym ('f, 't) UObject = "('f, 't) IMeshExportable option"

definition AddObjectIfExportable ::
  "('f, 'n, 't) engine \<Rightarrow> ('f, 't) UObject \<Rightarrow> bool \<Rightarrow> string
    \<Rightarrow> ('f, 'n, 't) URuntimeMeshExporter \<Rightarrow> ('f, 'n, 't) URuntimeMeshExporter \<times> bool" where
  "AddObjectIfExportable E object bOverrideNode hierarchicalNodeName exporter =
    (if bIsExporting exporter then (exporter, False)
     else case object of
            None \<Rightarrow> (exporter, False)
          | Some interfaceObject \<Rightarrow>
              (AddExportObject E interfaceObject bOverrideNode hierarchicalNodeName exporter, True))"

text \<open>
  \<open>URuntimeMeshExporter::AddObjectsIfExportable\<close>: the exporter and the array
  \<open>notExportable\<close> after the call.
\<close>

definition AddObjectsIfExportable ::
  "('f, 'n, 't) engine \<Rightarrow> ('f, 't) UObject list \<Rightarrow> bool \<Rightarrow> string \<Rightarrow> ('f, 't) UObject list
    \<Rightarrow> ('f, 'n, 't) URuntimeMeshExporter
    \<Rightarrow> ('f, 'n, 't) URuntimeMeshExporter \<times> ('f, 't) UObject list" where
  "AddObjectsIfExportable E objects bOverrideNode hierarchicalNodeName notExportable exporter =
    (if bIsExporting exporter then (exporter, notExportable)
     else fold (\<lambda>object (exporter, notExportable).
                  case AddObjectIfExportable E object bOverrideNode hierarchicalNodeName exporter of
                    (exporter', added) \<Rightarrow>
                      (exporter', if \<not> added then notExportable @ [object] else notExportable))
            objects (exporter, notExportable))"

text \<open>\<open>URuntimeMeshExporter::GetIsExporting\<close>.\<close>

definition GetIsExporting :: "('f, 'n, 't) URuntimeMeshExporter \<Rightarrow> bool" where
  "GetIsExporting exporter = bIsExporting exporter"

text \<open>
  \<open>URuntimeMeshExporter::PreExportWork\<close>: the returned flag, the exporter and the result
  after the call.
\<close>

definition PreExportWork ::
  "('f, 'n, 't) platform \<Rightarrow> 'f FRuntimeMeshExportParam \<Rightarrow> ('f, 'n, 't) URuntimeMeshExporter
    \<Rightarrow> FRuntimeMeshExportResult
    \<Rightarrow> bool \<times> ('f, 'n, 't) URuntimeMeshExporter \<times> FRuntimeMeshExportResult" where
  "PreExportWork plat param exporter result =
    (if bIsExporting exporter
     then (False, exporter, result\<lparr>error := NewLineAndAppend (error result) ''Already exporting!''\<rparr>)
     else
       let result1 = result\<lparr>error := []\<rparr>;
           exporter1 = exporter\<lparr>aiExporterReturn := aiReturn_FAILURE, aiExporterError := []\<rparr>
       in if \<not> bOverrideExisting param \<and> FileExists plat (file' param)
          then (False, exporter1,
                result1\<lparr>error := NewLineAndAppend (error result1)
                                     (''File '' @ file' param @ '' does already exist!'')\<rparr>)
          else if \<not> CreateDirectoryTree plat (GetPath plat (file' param))
          then (False, exporter1,
                result1\<lparr>error := NewLineAndAppend (error result1)
                                     (''Could not create directory: '' @ GetPath plat (file' param))\<rparr>)
          else (True,
                exporter1\<lparr>scene_member := (scene_member exporter1)\<lparr>bLogToUnreal := FRuntimeMeshExportParam.bLogToUnreal param\<rparr>,
                           bIsExporting := True\<rparr>,
                result1))"

text \<open>\<open>URuntimeMeshExporter::PostExportWork\<close>.\<close>

definition PostExportWork ::
  "('f, 'n, 't) URuntimeMeshExporter \<Rightarrow> FRuntimeMeshExportResult
    \<Rightarrow> bool \<times> ('f, 'n, 't) URuntimeMeshExporter \<times> FRuntimeMeshExportResult" where
  "PostExportWork exporter result =
    (let bExportSuccessful = False;
         result1 = (if aiExporterError exporter \<noteq> []
                    then result\<lparr>error := NewLineAndAppend (error result) (aiExporterError exporter)\<rparr>
                    else result);
         (bExportSuccessful, result2) =
           (if aiExporterReturn exporter = aiReturn_OUTOFMEMORY
            then (False, result1\<lparr>error := NewLineAndAppend (error result1) ''Export failed: out of memory!''\<rparr>)
            else if aiExporterReturn exporter = aiReturn_FAILURE
            then (False, result1\<lparr>error := NewLineAndAppend (error result1) ''Export failed!''\<rparr>)
            else if error result1 \<noteq> [] then (False, result1)
            else if aiExporterReturn exporter = aiReturn_SUCCESS then (True, result1)
            else (bExportSuccessful, result1));
         result3 = result2\<lparr>FRuntimeMeshExportResult.numObjectsSkipped :=
                              FAssimpScene.numObjectsSkipped (scene_member exporter)\<rparr>
     in (bExportSuccessful,
         exporter\<lparr>scene_member := ClearSceneExportData (scene_member exporter), aiExporterError := [],
                  aiExporterReturn := aiReturn_FAILURE, bIsExporting := False\<rparr>,
         result3))"

text \<open>
  \<open>URuntimeMeshExporter::Export\<close>: the exporter and the result after the call, or \<open>None\<close>
  when the preparation of the scene stops the program. An exception of the codec is
  caught: its message is appended to the errors and the status stays as it was.
\<close>

definition Export ::
  "('f, 'n, 't) engine \<Rightarrow> ('f, 'n, 't) platform \<Rightarrow> 'f FRuntimeMeshExportParam
    \<Rightarrow> ('f, 'n, 't) URuntimeMeshExporter \<times> FRuntimeMeshExportResult
    \<Rightarrow> (('f, 'n, 't) URuntimeMeshExporter \<times> FRuntimeMeshExportResult) option" where
  "Export E plat param st =
    (case PreExportWork plat param (fst st) (snd st) of
       (False, exporter, result) \<Rightarrow> Some (exporter, result\<lparr>bSuccess := False\<rparr>)
     | (True, exporter, result) \<Rightarrow>
         (case PrepareSceneForExport E param (scene_member exporter) of
            None \<Rightarrow> None
          | Some sceneRef \<Rightarrow>
              (let exporter1 = exporter\<lparr>scene_member := sceneRef\<rparr>;
                   (exporter2, result2) =
                     (case codec_Export plat sceneRef (formatId param) (file' param) of
                        Returned r \<Rightarrow> (exporter1\<lparr>aiExporterReturn := r\<rparr>, result)
                      | Threw what \<Rightarrow>
                          (exporter1,
                           result\<lparr>error := NewLineAndAppend (error result)
                                               (''Exception thrown during export: '' @ what)\<rparr>));
                   exporter3 = exporter2\<lparr>aiExporterError :=
                                 codec_GetErrorString plat sceneRef (formatId param) (file' param)\<rparr>
               in case PostExportWork exporter3 result2 of
                    (ok, exporter4, result4) \<Rightarrow> Some (exporter4, result4\<lparr>bSuccess := ok\<rparr>))))"

text \<open>
  \<open>URuntimeMeshExporter::Export_Async_Cpp\<close>: the exporter after the call and, when the
  export is refused, the result that is passed to \<open>callbackFinished\<close>.
\<close>

definition Export_Async_Cpp ::
  "('f, 'n, 't) platform \<Rightarrow> 'f FRuntimeMeshExportAsyncParam \<Rightarrow> ('f, 'n, 't) URuntimeMeshExporter
    \<Rightarrow> ('f, 'n, 't) URuntimeMeshExporter \<times> FRuntimeMeshExportResult option" where
  "Export_Async_Cpp plat param exporter =
    (case PreExportWork plat (param' param) exporter (asyncResult exporter) of
       (False, exporter1, result) \<Rightarrow>
         (exporter1\<lparr>asyncResult := result\<lparr>bSuccess := False\<rparr>\<rparr>, Some (result\<lparr>bSuccess := False\<rparr>))
     | (True, exporter1, result) \<Rightarrow>
         (exporter1\<lparr>asyncResult := result,
                    scene_member := PrepareSceneForExport_Async_Start param (scene_member exporter1)\<rparr>,
          None))"

section \<open>An engine for the examples\<close>

text \<open>
  An engine whose numbers are the integers and whose names are the strings themselves.
  A transform is a scale, a translation and the list of the rotations that were
  concatenated to it; \<open>Inverse\<close> is the inverse for scales whose components are 1 or -1.
\<close>

type_synonym Z_transform = "int FVector \<times> int FVector \<times> int FQuat list"

fun Z_times :: "int FVector \<Rightarrow> int FVector \<Rightarrow> int FVector" where
  "Z_times (FVector x y z) (FVector x' y' z') = FVector (x * x') (y * y') (z * z')"

fun Z_plus :: "int FVector \<Rightarrow> int FVector \<Rightarrow> int FVector" where
  "Z_plus (FVector x y z) (FVector x' y' z') = FVector (x + x') (y + y') (z + z')"

fun Z_matrix :: "Z_transform \<Rightarrow> int FMatrix" where
  "Z_matrix (FVector sx sy sz, FVector tx ty tz, qs) =
    (\<lambda>i j. if i = j then [sx, sy, sz, 1] ! i else if i = 3 then [tx, ty, tz, 1] ! j else 0)"

text \<open>Cutting a string at a delimiter character, without the empty pieces.\<close>

fun Z_split :: "char \<Rightarrow> string \<Rightarrow> string \<Rightarrow> string list" where
  "Z_split d cur [] = (if cur = [] then [] else [cur])"
| "Z_split d cur (c # cs) =
    (if c = d then (if cur = [] then [] else [cur]) @ Z_split d [] cs else Z_split d (cur @ [c]) cs)"

definition Z_engine :: "(int, string, Z_transform) engine" where
  "Z_engine =
    \<lparr>FName_of_string = (\<lambda>s. s), NAME_None = ''None'', ToString = (\<lambda>n. n),
     flt = (\<lambda>k. k), fmul = (\<lambda>a b. a * b), fneg = (\<lambda>a. - a), fless = (\<lambda>a b. a < b),
     FTransform_Identity = (FVector 1 1 1, FVector 0 0 0, []),
     Inverse = (\<lambda>(s, t, qs). (s, Z_times (Z_times t s) (FVector (- 1) (- 1) (- 1)), rev qs)),
     Mul = (\<lambda>(s, t, qs) (s', t', qs'). (Z_times s s', Z_plus (Z_times t s') t', qs @ qs')),
     GetScale3D = (\<lambda>(s, t, qs). s),
     SetScale3D = (\<lambda>(s, t, qs) s'. (s', t, qs)),
     ConcatenateRotation = (\<lambda>(s, t, qs) q. (s, t, qs @ [q])),
     Quaternion = (\<lambda>r. case r of FRotator pitch yaw roll \<Rightarrow> FQuat roll pitch yaw 0),
     ToMatrixWithScale = Z_matrix,
     FTransform_of_matrix = (\<lambda>m. (FVector (m 0 0) (m 1 1) (m 2 2), FVector (m 3 0) (m 3 1) (m 3 2), [])),
     FMatrix_Inverse = (\<lambda>m. m),
     FMatrix_GetTransposed = (\<lambda>m i j. m j i),
     TransformPosition = (\<lambda>(s, t, qs) v. Z_plus (Z_times v s) t),
     TransformVector = (\<lambda>(s, t, qs) v. Z_times v s),
     TransformVectorNoScale = (\<lambda>(s, t, qs) v. v),
     GetSafeNormal = (\<lambda>v. v),
     ReinterpretAsLinear = (\<lambda>c. case c of FColor b g r a \<Rightarrow> FLinearColor (uint r) (uint g) (uint b) (uint a)),
     UMaterialInterface_GetName = (\<lambda>a. ''Material''),
     ParseIntoArray = (\<lambda>s delim bCullEmpty. Z_split (hd delim) [] s)\<rparr>"

section \<open>Example scenes\<close>

text \<open>A triangle with the material at address 1, placed 10 units along the first axis.\<close>

definition example_section :: "(int, Z_transform) FExportableMeshSection" where
  "example_section =
    \<lparr>meshToWorld = (FVector 1 1 1, FVector 10 0 0, []), material = Some 1,
     vertices = [FVector 0 0 0, FVector 1 0 0, FVector 0 1 0],
     normals = [FVector 0 0 1, FVector 0 0 1, FVector 0 0 1],
     tangents = [FVector 1 0 0, FVector 1 0 0, FVector 1 0 0],
     textureCoordinates = [FVector2D 0 0, FVector2D 1 0, FVector2D 0 1],
     vertexColors = [FColor 0 0 0 0, FColor 0 0 0 0, FColor 0 0 0 0],
     triangles = [0, 1, 2]\<rparr>"

definition example_param :: "int FRuntimeMeshExportParam" where
  "example_param =
    \<lparr>bCombineSameMaterial = False, lod = 0, bSkipLodNotValid = False, formatId = ''obj'',
     file' = ''out.obj'', bOverrideExisting = True,
     correction = \<lparr>bFlipX = False, bFlipY = True, bFlipZ = False,
                    RollCorrection_X = Plus_90, PitchCorrection_Y = Zero, YawCorrection_Z = Zero,
                    scaleFactor = 2\<rparr>,
     bLogToUnreal = False\<rparr>"

text \<open>
  Three objects: the first refuses the request (and leaves a section in the out
  parameter all the same), the second returns one section, the third returns no section.
\<close>

definition example_objects :: "(int, Z_transform) IMeshExportable list" where
  "example_objects =
    [\<lparr>GetHierarchicalNodeName = ''a'', GetMeshData = (\<lambda>forLod bSkip. (False, [example_section]))\<rparr>,
     \<lparr>GetHierarchicalNodeName = ''a'', GetMeshData = (\<lambda>forLod bSkip. (True, [example_section]))\<rparr>,
     \<lparr>GetHierarchicalNodeName = ''a'', GetMeshData = (\<lambda>forLod bSkip. (True, []))\<rparr>]"

text \<open>The scene of a new exporter whose root node has the three objects.\<close>

definition example_scene :: "(int, string, Z_transform) FAssimpScene" where
  "example_scene =
    (new_FAssimpScene Z_engine)
      \<lparr>rootNode := FAssimpNode ((members (new_FAssimpNode Z_engine ''None''))\<lparr>exportObjects := example_objects\<rparr>) []\<rparr>"


text \<open>
  A root node that is scaled by 3, 4 and 5 and stands at (1, 2, 3), with one child \<open>a\<close>
  that is scaled by -1 along the first axis and stands at (7, 0, 0).
\<close>

definition example_placed_tree :: "(int, string, Z_transform) FAssimpNode" where
  "example_placed_tree =
    FAssimpNode ((members (new_FAssimpNode Z_engine ''None''))
                   \<lparr>worldTransform := (FVector 3 4 5, FVector 1 2 3, [])\<rparr>)
      [FAssimpNode ((members (new_FAssimpNode Z_engine ''a''))
                      \<lparr>worldTransform := (FVector (- 1) 1 1, FVector 7 0 0, [])\<rparr>) []]"

text \<open>
  A file system in which no file exists and every directory can be created, and a codec
  that always succeeds.
\<close>

definition example_platform :: "(int, string, Z_transform) platform" where
  "example_platform =
    \<lparr>FileExists = (\<lambda>f. False), CreateDirectoryTree = (\<lambda>d. True), GetPath = (\<lambda>f. []),
     codec_Export = (\<lambda>s formatId f. Returned aiReturn_SUCCESS),
     codec_GetErrorString = (\<lambda>s formatId f. [])\<rparr>"

text \<open>
  An exporter in flight: a new exporter to which the second example object was added at
  the node \<open>a.b\<close> and on which an asynchronous export was then started.
\<close>

definition example_busy_exporter :: "(int, string, Z_transform) URuntimeMeshExporter" where
  "example_busy_exporter =
    fst (Export_Async_Cpp example_platform \<lparr>numGatherPerTick' = 1, param' = example_param\<rparr>
           (AddExportObject Z_engine (example_objects ! 1) True ''a.b'' (new_URuntimeMeshExporter Z_engine)))"

text \<open>A scene of the codec with one material and one mesh of four vertices and two faces.\<close>

definition example_aiScene :: "int aiScene" where
  "example_aiScene =
    \<lparr>mMeshes =
       [\<lparr>mVertices = [FVector 0 0 0, FVector 1 0 0, FVector 0 1 0, FVector 1 1 0],
         mNormals = None, mTangents = None, mBitangents = None, mTextureCoords0 = None,
         mColors0 = None, mFaces = [[0, 1, 2], [2, 1, 3]], mMaterialIndex = 0\<rparr>],
     mMaterials = [''Wood'']\<rparr>"

section \<open>Theorems\<close>

subsection \<open>Section validation\<close>

text \<open>
  C3. Validation of a section returns false exactly when the number of normals, of
  tangents, of vertex colours or of texture coordinates differs from the number of
  vertices, or the number of triangle indices is not a multiple of 3. Hence a section
  that meets all five conditions validates as true.
\<close>

theorem ValidateMeshSection_false_iff:
  "(ValidateMeshSection sec = False) =
     (length (normals sec) \<noteq> length (vertices sec) \<or>
      length (tangents sec) \<noteq> length (vertices sec) \<or>
      length (vertexColors sec) \<noteq> length (vertices sec) \<or>
      length (textureCoordinates sec) \<noteq> length (vertices sec) \<or>
      length (triangles sec) mod 3 \<noteq> 0)"
  by (auto simp add: ValidateMeshSection_def Let_def)

theorem ValidateMeshSection_false_iff_witness:
  "ValidateMeshSection
     \<lparr>meshToWorld = (), material = None, vertices = [FVector (0::int) 0 0], normals = [],
      tangents = [FVector 0 0 0], textureCoordinates = [FVector2D 0 0],
      vertexColors = [FColor 0 0 0 0], triangles = []\<rparr> = False \<and>
   ValidateMeshSection
     \<lparr>meshToWorld = (), material = None, vertices = [FVector (0::int) 0 0], normals = [FVector 0 0 1],
      tangents = [FVector 0 0 0], textureCoordinates = [FVector2D 0 0],
      vertexColors = [FColor 0 0 0 0], triangles = [0, 0, 0]\<rparr> = True"
  using ValidateMeshSection_false_iff
          [of "\<lparr>meshToWorld = (), material = None, vertices = [FVector (0::int) 0 0], normals = [],
                tangents = [FVector 0 0 0], textureCoordinates = [FVector2D 0 0],
                vertexColors = [FColor 0 0 0 0], triangles = []\<rparr>"]
        ValidateMeshSection_false_iff
          [of "\<lparr>meshToWorld = (), material = None, vertices = [FVector (0::int) 0 0], normals = [FVector 0 0 1],
                tangents = [FVector 0 0 0], textureCoordinates = [FVector2D 0 0],
                vertexColors = [FColor 0 0 0 0], triangles = [0, 0, 0]\<rparr>"]
  by simp

subsection \<open>Merging export sections\<close>

text \<open>
  C4. When two sections have the same material handle, appending the second to the
  first succeeds and returns the first section with every vertex array of the second
  concatenated to its own (vertices, normals, tangents, texture coordinates, vertex
  colours). The triangle indices the first section had stay in front, unchanged, and the
  triangle indices of the second follow, each increased by the number of vertices the
  first section had before the call (in 32-bit arithmetic). Transform and material stay.
\<close>

theorem Append_concatenates:
  assumes "material a = material b"
  shows "\<exists>a'. Append a b = Some a' \<and>
           vertices a' = vertices a @ vertices b \<and>
           normals a' = normals a @ normals b \<and>
           tangents a' = tangents a @ tangents b \<and>
           textureCoordinates a' = textureCoordinates a @ textureCoordinates b \<and>
           vertexColors a' = vertexColors a @ vertexColors b \<and>
           triangles a' =
             triangles a @ map (\<lambda>tri. tri + of_nat (length (vertices a))) (triangles b) \<and>
           material a' = material a \<and> meshToWorld a' = meshToWorld a"
  using assms by (simp add: Append_def Let_def)

text \<open>
  The example of the claim: a section of 3 vertices and 1 triangle, and a section of 2
  vertices whose triangle indices are 0, 1, 1: the result has 5 vertices, the triangle
  0, 1, 2 of the first section, and the indices 3, 4, 4.
\<close>

theorem Append_concatenates_witness:
  "\<exists>a'. Append
          \<lparr>meshToWorld = (), material = Some 7,
           vertices = [FVector (0::int) 0 0, FVector 1 0 0, FVector 0 1 0],
           normals = [FVector 0 0 1, FVector 0 0 1, FVector 0 0 1],
           tangents = [FVector 1 0 0, FVector 1 0 0, FVector 1 0 0],
           textureCoordinates = [FVector2D 0 0, FVector2D 1 0, FVector2D 0 1],
           vertexColors = [FColor 0 0 0 0, FColor 0 0 0 0, FColor 0 0 0 0],
           triangles = [0, 1, 2]\<rparr>
          \<lparr>meshToWorld = (), material = Some 7,
           vertices = [FVector 5 5 5, FVector 6 6 6],
           normals = [FVector 0 1 0, FVector 0 1 0],
           tangents = [FVector 1 0 0, FVector 1 0 0],
           textureCoordinates = [FVector2D 0 0, FVector2D 1 1],
           vertexColors = [FColor 1 1 1 1, FColor 1 1 1 1],
           triangles = [0, 1, 1]\<rparr> = Some a' \<and>
        length (vertices a') = 5 \<and>
        triangles a' = [0, 1, 2, 3, 4, 4]"
  using Append_concatenates
          [of "\<lparr>meshToWorld = (), material = Some 7,
                vertices = [FVector (0::int) 0 0, FVector 1 0 0, FVector 0 1 0],
                normals = [FVector 0 0 1, FVector 0 0 1, FVector 0 0 1],
                tangents = [FVector 1 0 0, FVector 1 0 0, FVector 1 0 0],
                textureCoordinates = [FVector2D 0 0, FVector2D 1 0, FVector2D 0 1],
                vertexColors = [FColor 0 0 0 0, FColor 0 0 0 0, FColor 0 0 0 0],
                triangles = [0, 1, 2]\<rparr>"
              "\<lparr>meshToWorld = (), material = Some 7,
                vertices = [FVector 5 5 5, FVector 6 6 6],
                normals = [FVector 0 1 0, FVector 0 1 0],
                tangents = [FVector 1 0 0, FVector 1 0 0],
                textureCoordinates = [FVector2D 0 0, FVector2D 1 1],
                vertexColors = [FColor 1 1 1 1, FColor 1 1 1 1],
                triangles = [0, 1, 1]\<rparr>"]
  by auto

subsection \<open>Merging import sections\<close>

text \<open>
  C10. After \<open>Append_Move\<close> the receiver keeps its material name if the argument had the
  same material name and has the name \<open>None\<close> otherwise; it keeps its material index if
  the argument had the same material index and has the index -1 otherwise (the two
  fields are decided independently). The argument's material name is \<open>None\<close> and its
  material index is -1 afterwards, whatever they were. The argument's triangle indices
  are each increased by the number of vertices the receiver had before the call, and
  follow the receiver's own triangle indices; the vertices are concatenated.
\<close>

theorem Append_Move_material_and_triangles:
  "FRuntimeMeshImportSectionInfo.materialName (fst (Append_Move E this other)) =
     (if FRuntimeMeshImportSectionInfo.materialName this = FRuntimeMeshImportSectionInfo.materialName other
      then FRuntimeMeshImportSectionInfo.materialName this else NAME_None E) \<and>
   FRuntimeMeshImportSectionInfo.materialIndex (fst (Append_Move E this other)) =
     (if FRuntimeMeshImportSectionInfo.materialIndex this = FRuntimeMeshImportSectionInfo.materialIndex other
      then FRuntimeMeshImportSectionInfo.materialIndex this else - 1) \<and>
   FRuntimeMeshImportSectionInfo.materialName (snd (Append_Move E this other)) = NAME_None E \<and>
   FRuntimeMeshImportSectionInfo.materialIndex (snd (Append_Move E this other)) = - 1 \<and>
   FRuntimeMeshImportSectionInfo.triangles (fst (Append_Move E this other)) =
     FRuntimeMeshImportSectionInfo.triangles this @
     map (\<lambda>index. index + of_nat (length (FRuntimeMeshImportSectionInfo.vertices this)))
       (FRuntimeMeshImportSectionInfo.triangles other) \<and>
   FRuntimeMeshImportSectionInfo.vertices (fst (Append_Move E this other)) =
     FRuntimeMeshImportSectionInfo.vertices this @ FRuntimeMeshImportSectionInfo.vertices other"
  by (simp add: Append_Move_def OffsetTriangleArray_def INDEX_NONE_def Let_def)


subsection \<open>Finding and creating nodes\<close>

lemma FindByPredicate_Some:
  "FindByPredicate P xs = Some i \<Longrightarrow> i < length xs \<and> P (xs ! i) \<and> (\<forall>k<i. \<not> P (xs ! k))"
proof (induction xs arbitrary: i)
  case Nil
  then show ?case by simp
next
  case (Cons x xs)
  show ?case
  proof (cases "P x")
    case True
    with Cons.prems show ?thesis by simp
  next
    case False
    with Cons.prems obtain j where j: "FindByPredicate P xs = Some j" "i = Suc j" by auto
    from Cons.IH [OF j(1)] False j(2) show ?thesis
      by (auto simp: nth_Cons split: nat.splits)
  qed
qed

lemma FindByPredicate_None: "(FindByPredicate P xs = None) = (\<forall>x\<in>set xs. \<not> P x)"
  by (induction xs) auto

lemma FindByPredicate_first:
  "i < length xs \<Longrightarrow> P (xs ! i) \<Longrightarrow> (\<forall>k<i. \<not> P (xs ! k)) \<Longrightarrow> FindByPredicate P xs = Some i"
proof (induction xs arbitrary: i)
  case Nil
  then show ?case by simp
next
  case (Cons x xs)
  show ?case
  proof (cases i)
    case 0
    with Cons.prems show ?thesis by simp
  next
    case (Suc j)
    from Cons.prems Suc have "\<not> P x" by auto
    moreover from Cons.prems Suc have "FindByPredicate P xs = Some j"
      by (intro Cons.IH) auto
    ultimately show ?thesis using Suc by simp
  qed
qed

lemma FindByPredicate_update:
  assumes "FindByPredicate P xs = Some i" "P y"
  shows "FindByPredicate P (xs[i := y]) = Some i"
proof -
  from FindByPredicate_Some [OF assms(1)]
  have i: "i < length xs" and n: "\<forall>k<i. \<not> P (xs ! k)" by auto
  show ?thesis
    by (rule FindByPredicate_first) (use i n assms(2) in auto)
qed

lemma FindByPredicate_append_new:
  assumes "FindByPredicate P xs = None" "P y"
  shows "FindByPredicate P (xs @ [y]) = Some (length xs)"
proof -
  from assms(1) have "\<forall>x\<in>set xs. \<not> P x" by (simp add: FindByPredicate_None)
  then have "\<forall>k<length xs. \<not> P ((xs @ [y]) ! k)" by (simp add: nth_append)
  then show ?thesis
    by (intro FindByPredicate_first) (use assms(2) in auto)
qed

lemma FindOrCreateNode_members:
  "members (fst (FindOrCreateNode E this path)) = members this"
  by (cases path) (auto simp: Let_def split: option.splits prod.splits)

lemma name_new_FAssimpNode: "name (members (new_FAssimpNode E n)) = n"
  by (simp add: new_FAssimpNode_def)

lemma FindOrCreateNode_idem:
  "FindOrCreateNode E this path = (this', p) \<Longrightarrow> FindOrCreateNode E this' path = (this', p)"
proof (induction path arbitrary: this this' p)
  case Nil
  then show ?case by simp
next
  case (Cons seg rest)
  let ?P = "\<lambda>child. name (members child) = FName_of_string E seg"
  show ?case
  proof (cases "FindByPredicate ?P (children this)")
    case None
    obtain c q where r: "FindOrCreateNode E (new_FAssimpNode E (FName_of_string E seg)) rest = (c, q)"
      by (cases "FindOrCreateNode E (new_FAssimpNode E (FName_of_string E seg)) rest")
    from Cons.prems None r have this': "this' = FAssimpNode (members this) (children this @ [c])"
      and p: "p = length (children this) # q" by (auto simp: Let_def)
    have "members c = members (new_FAssimpNode E (FName_of_string E seg))"
      using FindOrCreateNode_members [of E "new_FAssimpNode E (FName_of_string E seg)" rest] r by simp
    then have Pc: "?P c" by (simp add: name_new_FAssimpNode)
    have f: "FindByPredicate ?P (children this') = Some (length (children this))"
      unfolding this' using FindByPredicate_append_new [OF None Pc] by simp
    have ih: "FindOrCreateNode E c rest = (c, q)" by (rule Cons.IH [OF r])
    show ?thesis using f ih by (simp add: this' p Let_def)
  next
    case (Some i)
    obtain c q where r: "FindOrCreateNode E (children this ! i) rest = (c, q)"
      by (cases "FindOrCreateNode E (children this ! i) rest")
    from Cons.prems Some r have this': "this' = FAssimpNode (members this) ((children this)[i := c])"
      and p: "p = i # q" by (auto simp: Let_def)
    from FindByPredicate_Some [OF Some] have i: "i < length (children this)" and Pi: "?P (children this ! i)"
      by auto
    have "members c = members (children this ! i)"
      using FindOrCreateNode_members [of E "children this ! i" rest] r by simp
    with Pi have Pc: "?P c" by simp
    have f: "FindByPredicate ?P (children this') = Some i"
      unfolding this' using FindByPredicate_update [OF Some Pc] by simp
    have ih: "FindOrCreateNode E c rest = (c, q)" by (rule Cons.IH [OF r])
    show ?thesis using f ih i by (simp add: this' p Let_def)
  qed
qed

lemma FindOrCreateNode_ptr_valid:
  "FindOrCreateNode E this path = (this', p) \<Longrightarrow> node_at this' p \<noteq> None"
proof (induction path arbitrary: this this' p)
  case Nil
  then show ?case by auto
next
  case (Cons seg rest)
  let ?P = "\<lambda>child. name (members child) = FName_of_string E seg"
  show ?case
  proof (cases "FindByPredicate ?P (children this)")
    case None
    obtain c q where r: "FindOrCreateNode E (new_FAssimpNode E (FName_of_string E seg)) rest = (c, q)"
      by (cases "FindOrCreateNode E (new_FAssimpNode E (FName_of_string E seg)) rest")
    from Cons.prems None r have this': "this' = FAssimpNode (members this) (children this @ [c])"
      and p: "p = length (children this) # q" by (auto simp: Let_def)
    from Cons.IH [OF r] show ?thesis by (simp add: this' p)
  next
    case (Some i)
    obtain c q where r: "FindOrCreateNode E (children this ! i) rest = (c, q)"
      by (cases "FindOrCreateNode E (children this ! i) rest")
    from Cons.prems Some r have this': "this' = FAssimpNode (members this) ((children this)[i := c])"
      and p: "p = i # q" by (auto simp: Let_def)
    from FindByPredicate_Some [OF Some] have i: "i < length (children this)" by auto
    from Cons.IH [OF r] i show ?thesis by (simp add: this' p)
  qed
qed

text \<open>
  C6. Calling \<open>FindOrCreateNode\<close> a second time with the same path, on the receiver as
  the first call left it, returns the pointer that the first call returned and leaves
  the tree as it was: no node is created. The pointer that is returned points to a node
  of the tree. With the empty path the function returns the receiver and changes
  nothing. When several children have the name of a segment, the function goes to the
  first of them. The hierarchical name of a node without a parent is \<open>root\<close>; that of a
  node with a parent is the hierarchical name of the parent, a dot, and the node's name.
\<close>

theorem FindOrCreateNode_idempotent:
  "FindOrCreateNode E (fst (FindOrCreateNode E this path)) path = FindOrCreateNode E this path \<and>
   node_at (fst (FindOrCreateNode E this path)) (snd (FindOrCreateNode E this path)) \<noteq> None \<and>
   FindOrCreateNode E this [] = (this, []) \<and>
   (i < length (children this) \<and> name (members (children this ! i)) = FName_of_string E seg \<and>
    (\<forall>k<i. name (members (children this ! k)) \<noteq> FName_of_string E seg)
    \<longrightarrow> FindOrCreateNode E this [seg] = (this, [i])) \<and>
   GetHierarchicalName E [] this = ''root'' \<and>
   GetHierarchicalName E (parent # ancestors) this =
     GetHierarchicalName E ancestors parent @ ''.'' @ ToString E (name (members this))"
proof -
  obtain this' p where r: "FindOrCreateNode E this path = (this', p)"
    by (cases "FindOrCreateNode E this path")
  have 1: "FindOrCreateNode E (fst (FindOrCreateNode E this path)) path = FindOrCreateNode E this path"
    using FindOrCreateNode_idem [OF r] r by simp
  have 2: "node_at (fst (FindOrCreateNode E this path)) (snd (FindOrCreateNode E this path)) \<noteq> None"
    using FindOrCreateNode_ptr_valid [OF r] r by simp
  have 3: "FindOrCreateNode E this [seg] = (this, [i])"
    if h: "i < length (children this)" "name (members (children this ! i)) = FName_of_string E seg"
      "\<forall>k<i. name (members (children this ! k)) \<noteq> FName_of_string E seg"
  proof -
    have "FindByPredicate (\<lambda>child. name (members child) = FName_of_string E seg) (children this) = Some i"
      by (rule FindByPredicate_first) (use h in auto)
    then show ?thesis by (cases this) (simp add: Let_def)
  qed
  show ?thesis using 1 2 3 by simp
qed

theorem FindOrCreateNode_idempotent_witness:
  "FindOrCreateNode Z_engine
     (FAssimpNode (members (new_FAssimpNode Z_engine ''r''))
        [new_FAssimpNode Z_engine ''b'', new_FAssimpNode Z_engine ''a'', new_FAssimpNode Z_engine ''a''])
     [''a''] =
   (FAssimpNode (members (new_FAssimpNode Z_engine ''r''))
        [new_FAssimpNode Z_engine ''b'', new_FAssimpNode Z_engine ''a'', new_FAssimpNode Z_engine ''a''],
    [1])"
  using FindOrCreateNode_idempotent
          [of Z_engine
              "FAssimpNode (members (new_FAssimpNode Z_engine ''r''))
                 [new_FAssimpNode Z_engine ''b'', new_FAssimpNode Z_engine ''a'', new_FAssimpNode Z_engine ''a'']"
              "[]" 1 "''a''"]
  by (simp add: new_FAssimpNode_def Z_engine_def)

text \<open>
  The hierarchical name of the node that \<open>FindOrCreateNode\<close> returns is the hierarchical
  name of the receiver followed, for every segment of the path, by a dot and the name of
  the segment: \<open>root.a.b\<close> for the path \<open>a\<close>, \<open>b\<close> from the root.
\<close>

lemma GetHierarchicalName_name_only:
  "name (members a) = name (members b) \<Longrightarrow> GetHierarchicalName E acc a = GetHierarchicalName E acc b"
  by (cases acc) auto

lemma GetHierarchicalName_FindOrCreateNode:
  assumes "FindOrCreateNode E this path = (this', p)"
  shows "\<exists>n. node_at this' p = Some n \<and>
           GetHierarchicalName E (parent_chain acc this' p) n =
             foldl (\<lambda>s seg. s @ ''.'' @ ToString E (FName_of_string E seg))
               (GetHierarchicalName E acc this) path"
  using assms
proof (induction path arbitrary: this this' p acc)
  case Nil
  then show ?case by auto
next
  case (Cons seg rest)
  let ?P = "\<lambda>child. name (members child) = FName_of_string E seg"
  have step: "\<exists>n. node_at (FAssimpNode (members this) cs') (i # q) = Some n \<and>
           GetHierarchicalName E (parent_chain acc (FAssimpNode (members this) cs') (i # q)) n =
             foldl (\<lambda>s seg. s @ ''.'' @ ToString E (FName_of_string E seg))
               (GetHierarchicalName E acc this) (seg # rest)"
    if r: "FindOrCreateNode E child0 rest = (c, q)" and i: "i < length cs'" "cs' ! i = c"
      and nm: "?P child0" for child0 c q i cs'
  proof -
    let ?this' = "FAssimpNode (members this) cs'"
    from Cons.IH [OF r, of "?this' # acc"] obtain n where n: "node_at c q = Some n"
      "GetHierarchicalName E (parent_chain (?this' # acc) c q) n =
         foldl (\<lambda>s seg. s @ ''.'' @ ToString E (FName_of_string E seg))
           (GetHierarchicalName E (?this' # acc) child0) rest"
      by blast
    have "GetHierarchicalName E acc ?this' = GetHierarchicalName E acc this"
      by (rule GetHierarchicalName_name_only) simp
    then have "GetHierarchicalName E (?this' # acc) child0 =
                 GetHierarchicalName E acc this @ ''.'' @ ToString E (FName_of_string E seg)"
      using nm by simp
    with n i show ?thesis by simp
  qed
  show ?case
  proof (cases "FindByPredicate ?P (children this)")
    case None
    obtain c q where r: "FindOrCreateNode E (new_FAssimpNode E (FName_of_string E seg)) rest = (c, q)"
      by (cases "FindOrCreateNode E (new_FAssimpNode E (FName_of_string E seg)) rest")
    from Cons.prems None r have this': "this' = FAssimpNode (members this) (children this @ [c])"
      and p: "p = length (children this) # q" by (auto simp: Let_def)
    show ?thesis
      unfolding this' p
      by (rule step [OF r]) (simp_all add: name_new_FAssimpNode)
  next
    case (Some i)
    obtain c q where r: "FindOrCreateNode E (children this ! i) rest = (c, q)"
      by (cases "FindOrCreateNode E (children this ! i) rest")
    from Cons.prems Some r have this': "this' = FAssimpNode (members this) ((children this)[i := c])"
      and p: "p = i # q" by (auto simp: Let_def)
    from FindByPredicate_Some [OF Some] have i: "i < length (children this)" "?P (children this ! i)"
      by auto
    show ?thesis
      unfolding this' p
      by (rule step [OF r]) (use i in simp_all)
  qed
qed

lemma GetHierarchicalName_example:
  "(case FindOrCreateNode Z_engine (new_FAssimpNode Z_engine ''None'') [''a'', ''b''] of
      (root, p) \<Rightarrow> map_option (GetHierarchicalName Z_engine (parent_chain [] root p)) (node_at root p)) =
   Some ''root.a.b''"
  by (simp add: new_FAssimpNode_def Z_engine_def Let_def)

subsection \<open>Gathering the sections of the objects of a node\<close>

lemma foldr_all_valid:
  "foldr (\<lambda>sec b. if \<not> ValidateMeshSection sec then False else b) sections True =
     (\<forall>sec \<in> set sections. ValidateMeshSection sec)"
  by (induction sections) auto

lemma GatherMeshData_body_eq:
  "GatherMeshData_body param scene this object =
    (if source_is_skipped param object
     then (scene\<lparr>numObjectsSkipped := numObjectsSkipped scene + 1\<rparr>, this)
     else (scene, this\<lparr>gatheredExportables := gatheredExportables this @ [returned_sections param object]\<rparr>))"
  by (auto simp: GatherMeshData_body_def source_is_skipped_def returned_sections_def Let_def
        foldr_all_valid split: prod.splits)

lemma GatherMeshData_loop_eq:
  "endIndex \<le> int (length (exportObjects this)) \<Longrightarrow>
   GatherMeshData_loop param endIndex (scene, this, numGathered) =
     (let m = nat (endIndex - int (indexGatherNext this));
          objs = take m (drop (indexGatherNext this) (exportObjects this))
      in (scene\<lparr>numObjectsSkipped :=
                  numObjectsSkipped scene + of_nat (length (filter (source_is_skipped param) objs))\<rparr>,
          this\<lparr>gatheredExportables :=
                 gatheredExportables this @
                 map (returned_sections param) (filter (\<lambda>object. \<not> source_is_skipped param object) objs),
               indexGatherNext := indexGatherNext this + m\<rparr>,
          numGathered + m))"
proof (induction param endIndex "(scene, this, numGathered)" arbitrary: scene this numGathered
        rule: GatherMeshData_loop.induct)
  case (1 param endIndex scene this numGathered)
  let ?i = "indexGatherNext this"
  show ?case
  proof (cases "int ?i < endIndex")
    case False
    then show ?thesis by (simp add: Let_def)
  next
    case True
    with "1.prems" have i: "?i < length (exportObjects this)" by simp
    let ?obj = "exportObjects this ! ?i"
    obtain scene' this' where b: "GatherMeshData_body param scene this ?obj = (scene', this')"
      by (cases "GatherMeshData_body param scene this ?obj")
    have ex: "exportObjects this' = exportObjects this" and ix: "indexGatherNext this' = ?i"
      using b by (auto simp: GatherMeshData_body_eq split: if_splits)
    let ?this1 = "this'\<lparr>indexGatherNext := indexGatherNext this' + 1\<rparr>"
    define k where "k = nat (endIndex - int (indexGatherNext ?this1))"
    define objs' where "objs' = take k (drop (Suc ?i) (exportObjects this))"
    have "GatherMeshData_loop param endIndex (scene', ?this1, numGathered + 1) =
       (let m = nat (endIndex - int (indexGatherNext ?this1));
          objs = take m (drop (indexGatherNext ?this1) (exportObjects ?this1))
      in (scene'\<lparr>numObjectsSkipped :=
                  numObjectsSkipped scene' + of_nat (length (filter (source_is_skipped param) objs))\<rparr>,
          ?this1\<lparr>gatheredExportables :=
                 gatheredExportables ?this1 @
                 map (returned_sections param) (filter (\<lambda>object. \<not> source_is_skipped param object) objs),
               indexGatherNext := indexGatherNext ?this1 + m\<rparr>,
          numGathered + 1 + m))"
      by (rule "1.hyps" [OF True b [symmetric] refl]) (use "1.prems" ex in simp)
    then have ih: "GatherMeshData_loop param endIndex (scene', ?this1, numGathered + 1) =
        (scene'\<lparr>numObjectsSkipped :=
                  numObjectsSkipped scene' + of_nat (length (filter (source_is_skipped param) objs'))\<rparr>,
          this'\<lparr>gatheredExportables :=
                 gatheredExportables this' @
                 map (returned_sections param) (filter (\<lambda>object. \<not> source_is_skipped param object) objs'),
               indexGatherNext := Suc (?i + k)\<rparr>,
          Suc (numGathered + k))"
      unfolding Let_def k_def [symmetric] by (simp add: ix ex objs'_def)
    have m: "nat (endIndex - int ?i) = Suc k" using True by (simp add: k_def ix)
    have objs: "take (Suc k) (drop ?i (exportObjects this)) = ?obj # objs'"
      using i by (simp add: objs'_def Cons_nth_drop_Suc [symmetric])
    have step: "GatherMeshData_loop param endIndex (scene, this, numGathered) =
                  GatherMeshData_loop param endIndex (scene', ?this1, numGathered + 1)"
      using True b by simp
    show ?thesis
    proof (cases "source_is_skipped param ?obj")
      case True
      with b have "scene' = scene\<lparr>numObjectsSkipped := numObjectsSkipped scene + 1\<rparr>" "this' = this"
        by (simp_all add: GatherMeshData_body_eq)
      then show ?thesis unfolding step ih Let_def m objs using True by simp
    next
      case False
      with b have "scene' = scene"
        "this' = this\<lparr>gatheredExportables := gatheredExportables this @ [returned_sections param ?obj]\<rparr>"
        by (simp_all add: GatherMeshData_body_eq)
      then show ?thesis unfolding step ih Let_def m objs using False by simp
    qed
  qed
qed

lemma sint_of_nat_add:
  assumes "0 < sint (n :: int32)" "int i + sint n < 2 ^ 31"
  shows "sint ((of_nat i :: int32) + n) = int i + sint n"
proof -
  have i: "int i < 2 ^ 31" using assms by linarith
  have "sint (of_nat i :: int32) = int i"
    using i by (simp add: signed_of_nat signed_take_bit_int_eq_self)
  moreover have "- (2 ^ 31) \<le> int i + sint n" using assms by linarith
  ultimately show ?thesis
    using assms by (simp add: sint_word_ariths signed_take_bit_int_eq_self)
qed

text \<open>
  C1. \<open>GatherMeshData\<close> takes the objects of the node that were not gathered yet, in
  order: all of them when everything is gathered at once, the next \<open>m\<close> of them
  otherwise (the next \<open>numToGather\<close>, or those that are left if they are fewer, when the
  32-bit sum does not overflow). An object that refuses the request, returns no section
  or returns at least one invalid section adds exactly one to the counter of skipped
  objects of the scene and none of its sections to the node. Every other object adds the
  whole list of its sections to the node and nothing to the counter. Nothing else
  changes, and the call goes on to the objects that follow a skipped one.

  The witness is the example of the claim: a scene with three objects, of which the
  first refuses and the third returns no section, is exported with 2 skipped objects and
  one mesh, built from the section of the second object.
\<close>

theorem GatherMeshData_skips_whole_sources:
  assumes "bGatherAll \<or> 0 < sint numToGather"
  shows "\<exists>m. GatherMeshData param scene this bGatherAll numToGather =
           Some (scene\<lparr>numObjectsSkipped :=
                        numObjectsSkipped scene +
                        of_nat (length (filter (source_is_skipped param)
                                  (take m (drop (indexGatherNext this) (exportObjects this)))))\<rparr>,
                 this\<lparr>gatheredExportables :=
                        gatheredExportables this @
                        map (returned_sections param)
                          (filter (\<lambda>object. \<not> source_is_skipped param object)
                             (take m (drop (indexGatherNext this) (exportObjects this)))),
                      indexGatherNext := indexGatherNext this + m\<rparr>,
                 m) \<and>
           m \<le> length (exportObjects this) - indexGatherNext this \<and>
           (bGatherAll \<longrightarrow> m = length (exportObjects this) - indexGatherNext this) \<and>
           (\<not> bGatherAll \<and> int (indexGatherNext this) + sint numToGather < 2 ^ 31 \<longrightarrow>
              m = min (nat (sint numToGather)) (length (exportObjects this) - indexGatherNext this))"
proof -
  define endIndex where "endIndex =
     min (if bGatherAll then int (length (exportObjects this))
          else sint ((of_nat (if bGatherAll then 0 else indexGatherNext this) :: int32) + numToGather))
         (int (length (exportObjects this)))"
  define m where "m = nat (endIndex - int (indexGatherNext this))"
  have le: "endIndex \<le> int (length (exportObjects this))" by (simp add: endIndex_def)
  have g: "GatherMeshData param scene this bGatherAll numToGather =
             Some (GatherMeshData_loop param endIndex (scene, this, 0))"
    using assms by (simp add: GatherMeshData_def endIndex_def Let_def)
  have 1: "m \<le> length (exportObjects this) - indexGatherNext this"
    using le by (simp add: m_def)
  have 2: "m = length (exportObjects this) - indexGatherNext this" if bGatherAll
    using that by (simp add: m_def endIndex_def)
  have 3: "m = min (nat (sint numToGather)) (length (exportObjects this) - indexGatherNext this)"
    if h: "\<not> bGatherAll" "int (indexGatherNext this) + sint numToGather < 2 ^ 31"
  proof -
    from h(1) assms have pos: "0 < sint numToGather" by simp
    have "endIndex = min (int (indexGatherNext this) + sint numToGather) (int (length (exportObjects this)))"
      using h(1) sint_of_nat_add [OF pos h(2)] by (simp add: endIndex_def)
    then show ?thesis using pos unfolding m_def by (simp add: min_def) linarith
  qed
  show ?thesis
    apply (rule exI [of _ m])
    unfolding g GatherMeshData_loop_eq [OF le] Let_def m_def [symmetric]
    using 1 2 3 by simp
qed


theorem GatherMeshData_skips_whole_sources_witness:
  "(\<exists>m. GatherMeshData example_param example_scene (members (rootNode example_scene)) True 0 =
          Some (example_scene\<lparr>numObjectsSkipped := 2\<rparr>,
                (members (rootNode example_scene))
                  \<lparr>gatheredExportables := [[example_section]], indexGatherNext := 3\<rparr>,
                m)) \<and>
   map_option (\<lambda>s. (numObjectsSkipped s, map FAssimpMesh.vertices (meshes s), map faces (meshes s)))
     (PrepareSceneForExport Z_engine example_param example_scene) =
   Some (2, [[FVector 10 0 0, FVector 11 0 0, FVector 10 1 0]], [[[0, 1, 2]]])"
proof
  have objs: "exportObjects (members (rootNode example_scene)) = example_objects"
    by (simp add: example_scene_def)
  have sk: "filter (source_is_skipped example_param) example_objects = [example_objects ! 0, example_objects ! 2]"
    by (simp add: example_objects_def source_is_skipped_def returned_sections_def example_section_def
          ValidateMeshSection_def)
  have ok: "map (returned_sections example_param)
              (filter (\<lambda>object. \<not> source_is_skipped example_param object) example_objects) = [[example_section]]"
    by (simp add: example_objects_def source_is_skipped_def returned_sections_def example_section_def
          ValidateMeshSection_def)
  have len: "length example_objects = 3" by (simp add: example_objects_def)
  have i0: "indexGatherNext (members (rootNode example_scene)) = 0"
    "gatheredExportables (members (rootNode example_scene)) = []"
    "numObjectsSkipped example_scene = 0"
    by (simp_all add: example_scene_def new_FAssimpNode_def new_FAssimpScene_def)
  from GatherMeshData_skips_whole_sources
         [of True 0 example_param example_scene "members (rootNode example_scene)", OF disjI1 [OF TrueI]]
  show "\<exists>m. GatherMeshData example_param example_scene (members (rootNode example_scene)) True 0 =
          Some (example_scene\<lparr>numObjectsSkipped := 2\<rparr>,
                (members (rootNode example_scene))
                  \<lparr>gatheredExportables := [[example_section]], indexGatherNext := 3\<rparr>,
                m)"
    by (auto simp: objs sk ok len i0)
next
  show "map_option (\<lambda>s. (numObjectsSkipped s, map FAssimpMesh.vertices (meshes s), map faces (meshes s)))
     (PrepareSceneForExport Z_engine example_param example_scene) =
   Some (2, [[FVector 10 0 0, FVector 11 0 0, FVector 10 1 0]], [[[0, 1, 2]]])"
    by (simp add: PrepareSceneForExport_def example_scene_def example_objects_def new_FAssimpScene_def
          new_FAssimpNode_def GatherMeshData_at_def GatherMeshData_def GatherMeshData_body_def
          ProcessGatheredData_Recursive_def CreateAssimpMeshesFromMeshData_def TransformSection_def
          AddToMaterialSections_def CreateAssimpMesh_def AddMaterial_def example_section_def
          example_param_def Z_engine_def SetDataAndPtrsToParentClass_EntireScene_def
          FAssimpMesh_SetDataAndPtrsToParentClass_def faces_of_triangles_def
          ValidateMeshSection_def Let_def)
qed

subsection \<open>The order of the nodes in the two phases\<close>






lemma map_append_Nil [simp]: "map ((@) []) xs = xs"
  by (induction xs) simp_all

















































subsection \<open>Materials of the meshes\<close>

lemma FindByPredicate_eq_None: "(FindByPredicate (\<lambda>m. m = x) xs = None) = (x \<notin> set xs)"
  by (auto simp: FindByPredicate_None)

lemma AddMaterial_found:
  assumes "FindByPredicate (\<lambda>m. m = material sec) (uniqueMaterials scene) = Some i"
  shows "AddMaterial E sec scene = Some (i, scene)"
  using assms by (simp add: AddMaterial_def)

lemma AddMaterial_new:
  assumes "material sec \<notin> set (uniqueMaterials scene)"
    and "length (materials scene) = length (uniqueMaterials scene)"
  shows "AddMaterial E sec scene =
           Some (length (uniqueMaterials scene),
                 scene\<lparr>uniqueMaterials := uniqueMaterials scene @ [material sec],
                        materials := materials scene @
                          [[AI_MATKEY_NAME (case material sec of
                                              Some a \<Rightarrow> UMaterialInterface_GetName E a
                                            | None \<Rightarrow> ''Unknown''),
                            AI_MATKEY_TWOSIDED 1, AI_MATKEY_SHININESS (flt E 0),
                            AI_MATKEY_TEXTURE_DIFFUSE 0 assimpTexturePath]]\<rparr>)"
proof -
  from assms(1) have "FindByPredicate (\<lambda>m. m = material sec) (uniqueMaterials scene) = None"
    by (simp add: FindByPredicate_eq_None)
  then show ?thesis using assms(2) by (simp add: AddMaterial_def Let_def)
qed

lemma ValidateMeshSection_iff:
  "ValidateMeshSection sec =
     (length (normals sec) = length (vertices sec) \<and>
      length (tangents sec) = length (vertices sec) \<and>
      length (vertexColors sec) = length (vertices sec) \<and>
      length (textureCoordinates sec) = length (vertices sec) \<and>
      length (triangles sec) mod 3 = 0)"
  by (auto simp add: ValidateMeshSection_def Let_def)

lemma CreateAssimpMesh_Some:
  assumes "AddMaterial E sec scene = Some (i, scene1)" and "ValidateMeshSection sec"
  shows "\<exists>mesh. CreateAssimpMesh E sec (scene, this) =
           Some (scene1\<lparr>meshes := meshes scene1 @ [mesh]\<rparr>,
                 this\<lparr>meshRefIndices := meshRefIndices this @ [length (meshes scene)]\<rparr>) \<and>
           mMaterialIndex mesh = i"
proof -
  from assms(2) have "\<not> length (vertexColors sec) < length (vertices sec)"
    "\<not> length (textureCoordinates sec) < length (vertices sec)"
    "length (triangles sec) mod 3 = 0"
    by (simp_all add: ValidateMeshSection_iff)
  with assms(1) obtain mesh where
    "CreateAssimpMesh E sec (scene, this) =
       Some (scene1\<lparr>meshes := meshes scene1 @ [mesh]\<rparr>,
             this\<lparr>meshRefIndices := meshRefIndices this @ [length (meshes scene)]\<rparr>)"
    "mMaterialIndex mesh = i"
    by (simp add: CreateAssimpMesh_def Let_def)
  then show ?thesis by blast
qed

lemma CreateAssimpMesh_step:
  assumes inv: "length (materials scene) = length (uniqueMaterials scene)"
    and idx: "\<forall>mesh \<in> set (meshes scene). mMaterialIndex mesh < length (materials scene)"
    and valid: "ValidateMeshSection sec"
  shows "\<exists>scene' this' mesh.
           CreateAssimpMesh E sec (scene, this) = Some (scene', this') \<and>
           meshes scene' = meshes scene @ [mesh] \<and>
           (if material sec \<in> set (uniqueMaterials scene)
            then uniqueMaterials scene' = uniqueMaterials scene \<and> materials scene' = materials scene
            else uniqueMaterials scene' = uniqueMaterials scene @ [material sec] \<and>
                 materials scene' = materials scene @
                   [[AI_MATKEY_NAME (case material sec of
                                       Some a \<Rightarrow> UMaterialInterface_GetName E a
                                     | None \<Rightarrow> ''Unknown''),
                     AI_MATKEY_TWOSIDED 1, AI_MATKEY_SHININESS (flt E 0),
                     AI_MATKEY_TEXTURE_DIFFUSE 0 assimpTexturePath]]) \<and>
           mMaterialIndex mesh < length (uniqueMaterials scene') \<and>
           uniqueMaterials scene' ! mMaterialIndex mesh = material sec \<and>
           (\<forall>k < mMaterialIndex mesh. uniqueMaterials scene' ! k \<noteq> material sec) \<and>
           length (materials scene') = length (uniqueMaterials scene') \<and>
           (\<forall>mesh \<in> set (meshes scene'). mMaterialIndex mesh < length (materials scene')) \<and>
           (distinct (uniqueMaterials scene) \<longrightarrow> distinct (uniqueMaterials scene'))"
proof (cases "FindByPredicate (\<lambda>m. m = material sec) (uniqueMaterials scene)")
  case None
  then have new: "material sec \<notin> set (uniqueMaterials scene)" by (simp add: FindByPredicate_eq_None)
  let ?scene1 = "scene\<lparr>uniqueMaterials := uniqueMaterials scene @ [material sec],
                        materials := materials scene @
                          [[AI_MATKEY_NAME (case material sec of
                                              Some a \<Rightarrow> UMaterialInterface_GetName E a
                                            | None \<Rightarrow> ''Unknown''),
                            AI_MATKEY_TWOSIDED 1, AI_MATKEY_SHININESS (flt E 0),
                            AI_MATKEY_TEXTURE_DIFFUSE 0 assimpTexturePath]]\<rparr>"
  from CreateAssimpMesh_Some [OF AddMaterial_new [OF new inv] valid, where this = this]
  obtain mesh where m: "CreateAssimpMesh E sec (scene, this) =
           Some (?scene1\<lparr>meshes := meshes ?scene1 @ [mesh]\<rparr>,
                 this\<lparr>meshRefIndices := meshRefIndices this @ [length (meshes scene)]\<rparr>)"
    "mMaterialIndex mesh = length (uniqueMaterials scene)" by blast
  have "\<forall>k < length (uniqueMaterials scene). (uniqueMaterials scene @ [material sec]) ! k \<noteq> material sec"
    using new by (auto simp: nth_append in_set_conv_nth)
  then show ?thesis
    using m new inv idx by (auto simp: nth_append intro: less_SucI)
next
  case (Some i)
  from FindByPredicate_Some [OF Some]
  have i: "i < length (uniqueMaterials scene)" "uniqueMaterials scene ! i = material sec"
    "\<forall>k<i. uniqueMaterials scene ! k \<noteq> material sec" by auto
  then have old: "material sec \<in> set (uniqueMaterials scene)" by (metis nth_mem)
  from CreateAssimpMesh_Some [OF AddMaterial_found [OF Some] valid, where this = this]
  obtain mesh where m: "CreateAssimpMesh E sec (scene, this) =
           Some (scene\<lparr>meshes := meshes scene @ [mesh]\<rparr>,
                 this\<lparr>meshRefIndices := meshRefIndices this @ [length (meshes scene)]\<rparr>)"
    "mMaterialIndex mesh = i" by blast
  show ?thesis
    using m old i inv idx by auto
qed


text \<open>
  C9. Take a scene with as many materials as unique material handles, whose meshes all
  have a material index inside the material pool, and a valid section. Creating the mesh
  of the section succeeds and appends one mesh. If the handle of the section is already
  among the unique handles, neither pool changes and the mesh gets the index of the
  first occurrence of the handle. If the handle is new, it is appended to the unique
  handles and exactly one material is appended to the materials: its name (the name of
  the material object, or \<open>Unknown\<close> for the null handle), the two-sided flag 1,
  shininess 0 and the diffuse texture path; the mesh gets the index of the new entry.
  Afterwards the two pools have the same length again, the material index of every mesh
  is inside the material pool, and unique handles that were distinct are distinct. A
  mesh created next from a valid section with a different handle gets a different
  material index, whatever the two material objects contain.
\<close>

theorem CreateAssimpMesh_materials:
  assumes inv: "length (materials scene) = length (uniqueMaterials scene)"
    and idx: "\<forall>mesh \<in> set (meshes scene). mMaterialIndex mesh < length (materials scene)"
    and valid: "ValidateMeshSection sec"
  shows "\<exists>scene' this' mesh.
           CreateAssimpMesh E sec (scene, this) = Some (scene', this') \<and>
           meshes scene' = meshes scene @ [mesh] \<and>
           (if material sec \<in> set (uniqueMaterials scene)
            then uniqueMaterials scene' = uniqueMaterials scene \<and> materials scene' = materials scene
            else uniqueMaterials scene' = uniqueMaterials scene @ [material sec] \<and>
                 materials scene' = materials scene @
                   [[AI_MATKEY_NAME (case material sec of
                                       Some a \<Rightarrow> UMaterialInterface_GetName E a
                                     | None \<Rightarrow> ''Unknown''),
                     AI_MATKEY_TWOSIDED 1, AI_MATKEY_SHININESS (flt E 0),
                     AI_MATKEY_TEXTURE_DIFFUSE 0 assimpTexturePath]]) \<and>
           mMaterialIndex mesh < length (uniqueMaterials scene') \<and>
           uniqueMaterials scene' ! mMaterialIndex mesh = material sec \<and>
           (\<forall>k < mMaterialIndex mesh. uniqueMaterials scene' ! k \<noteq> material sec) \<and>
           length (materials scene') = length (uniqueMaterials scene') \<and>
           (\<forall>mesh \<in> set (meshes scene'). mMaterialIndex mesh < length (materials scene')) \<and>
           (distinct (uniqueMaterials scene) \<longrightarrow> distinct (uniqueMaterials scene')) \<and>
           (\<forall>sec2. ValidateMeshSection sec2 \<and> material sec2 \<noteq> material sec \<longrightarrow>
              (\<exists>scene'' this'' mesh2.
                 CreateAssimpMesh E sec2 (scene', this') = Some (scene'', this'') \<and>
                 meshes scene'' = meshes scene @ [mesh, mesh2] \<and>
                 mMaterialIndex mesh2 \<noteq> mMaterialIndex mesh \<and>
                 mMaterialIndex mesh < length (materials scene'') \<and>
                 mMaterialIndex mesh2 < length (materials scene'')))"
proof -
  from CreateAssimpMesh_step [OF inv idx valid, of E this]
  obtain scene' this' mesh where 1:
    "CreateAssimpMesh E sec (scene, this) = Some (scene', this')"
    "meshes scene' = meshes scene @ [mesh]"
    "if material sec \<in> set (uniqueMaterials scene)
     then uniqueMaterials scene' = uniqueMaterials scene \<and> materials scene' = materials scene
     else uniqueMaterials scene' = uniqueMaterials scene @ [material sec] \<and>
          materials scene' = materials scene @
            [[AI_MATKEY_NAME (case material sec of
                                Some a \<Rightarrow> UMaterialInterface_GetName E a
                              | None \<Rightarrow> ''Unknown''),
              AI_MATKEY_TWOSIDED 1, AI_MATKEY_SHININESS (flt E 0),
              AI_MATKEY_TEXTURE_DIFFUSE 0 assimpTexturePath]]"
    "mMaterialIndex mesh < length (uniqueMaterials scene')"
    "uniqueMaterials scene' ! mMaterialIndex mesh = material sec"
    "\<forall>k < mMaterialIndex mesh. uniqueMaterials scene' ! k \<noteq> material sec"
    "length (materials scene') = length (uniqueMaterials scene')"
    "\<forall>mesh \<in> set (meshes scene'). mMaterialIndex mesh < length (materials scene')"
    "distinct (uniqueMaterials scene) \<longrightarrow> distinct (uniqueMaterials scene')"
    by blast
  have 2: "\<exists>scene'' this'' mesh2.
                 CreateAssimpMesh E sec2 (scene', this') = Some (scene'', this'') \<and>
                 meshes scene'' = meshes scene @ [mesh, mesh2] \<and>
                 mMaterialIndex mesh2 \<noteq> mMaterialIndex mesh \<and>
                 mMaterialIndex mesh < length (materials scene'') \<and>
                 mMaterialIndex mesh2 < length (materials scene'')"
    if v2: "ValidateMeshSection sec2" and ne: "material sec2 \<noteq> material sec" for sec2
  proof -
    from CreateAssimpMesh_step [OF 1(7) 1(8) v2, of E this']
    obtain scene'' this'' mesh2 where 3:
      "CreateAssimpMesh E sec2 (scene', this') = Some (scene'', this'')"
      "meshes scene'' = meshes scene' @ [mesh2]"
      "if material sec2 \<in> set (uniqueMaterials scene')
       then uniqueMaterials scene'' = uniqueMaterials scene' \<and> materials scene'' = materials scene'
       else uniqueMaterials scene'' = uniqueMaterials scene' @ [material sec2] \<and>
            materials scene'' = materials scene' @
              [[AI_MATKEY_NAME (case material sec2 of
                                  Some a \<Rightarrow> UMaterialInterface_GetName E a
                                | None \<Rightarrow> ''Unknown''),
                AI_MATKEY_TWOSIDED 1, AI_MATKEY_SHININESS (flt E 0),
                AI_MATKEY_TEXTURE_DIFFUSE 0 assimpTexturePath]]"
      "mMaterialIndex mesh2 < length (uniqueMaterials scene'')"
      "uniqueMaterials scene'' ! mMaterialIndex mesh2 = material sec2"
      "length (materials scene'') = length (uniqueMaterials scene'')"
      by blast
    have "uniqueMaterials scene'' ! mMaterialIndex mesh = material sec"
      using 3(3) 1(4) 1(5) by (auto simp: nth_append split: if_splits)
    with 3(5) ne have "mMaterialIndex mesh2 \<noteq> mMaterialIndex mesh" by auto
    moreover have "mMaterialIndex mesh < length (materials scene'')"
      using 3(3) 3(6) 1(4) by (auto split: if_splits)
    ultimately show ?thesis using 3 1(2) by auto
  qed
  show ?thesis
    using 1 2 by blast
qed


theorem CreateAssimpMesh_materials_witness:
  "\<exists>scene' this' mesh.
     CreateAssimpMesh Z_engine example_section
       (new_FAssimpScene Z_engine, members (new_FAssimpNode Z_engine ''None'')) = Some (scene', this') \<and>
     meshes scene' = [mesh] \<and>
     mMaterialIndex mesh = 0 \<and>
     uniqueMaterials scene' = [Some 1] \<and>
     materials scene' =
       [[AI_MATKEY_NAME ''Material'', AI_MATKEY_TWOSIDED 1, AI_MATKEY_SHININESS 0,
         AI_MATKEY_TEXTURE_DIFFUSE 0 assimpTexturePath]] \<and>
     (\<exists>scene'' this'' mesh2.
        CreateAssimpMesh Z_engine (example_section\<lparr>material := Some 2\<rparr>) (scene', this') =
          Some (scene'', this'') \<and>
        meshes scene'' = [mesh, mesh2] \<and>
        mMaterialIndex mesh2 \<noteq> mMaterialIndex mesh \<and>
        mMaterialIndex mesh2 < length (materials scene''))"
proof -
  have v: "ValidateMeshSection example_section"
    by (simp add: ValidateMeshSection_iff example_section_def)
  have v2: "ValidateMeshSection (example_section\<lparr>material := Some 2\<rparr>)"
    by (simp add: ValidateMeshSection_iff example_section_def)
  have ne: "material (example_section\<lparr>material := Some 2\<rparr>) \<noteq> material example_section"
    by (simp add: example_section_def)
  have inv: "length (materials (new_FAssimpScene Z_engine)) = length (uniqueMaterials (new_FAssimpScene Z_engine))"
    by (simp add: new_FAssimpScene_def)
  have idx: "\<forall>mesh \<in> set (meshes (new_FAssimpScene Z_engine)).
               mMaterialIndex mesh < length (materials (new_FAssimpScene Z_engine))"
    by (simp add: new_FAssimpScene_def)
  have e: "uniqueMaterials (new_FAssimpScene Z_engine) = []" "materials (new_FAssimpScene Z_engine) = []"
    "meshes (new_FAssimpScene Z_engine) = []" "material example_section = Some 1"
    "flt Z_engine 0 = 0"
    by (simp_all add: new_FAssimpScene_def example_section_def Z_engine_def)
  have n: "UMaterialInterface_GetName Z_engine a = ''Material''" for a
    by (simp add: Z_engine_def)
  from CreateAssimpMesh_materials
         [OF inv idx v, of Z_engine "members (new_FAssimpNode Z_engine ''None'')"]
  obtain scene' this' mesh where 1:
    "CreateAssimpMesh Z_engine example_section
       (new_FAssimpScene Z_engine, members (new_FAssimpNode Z_engine ''None'')) = Some (scene', this')"
    "meshes scene' = [mesh]"
    "uniqueMaterials scene' = [Some 1]"
    "materials scene' =
       [[AI_MATKEY_NAME ''Material'', AI_MATKEY_TWOSIDED 1, AI_MATKEY_SHININESS 0,
         AI_MATKEY_TEXTURE_DIFFUSE 0 assimpTexturePath]]"
    "mMaterialIndex mesh < length (uniqueMaterials scene')"
    "\<forall>sec2. ValidateMeshSection sec2 \<and> material sec2 \<noteq> material example_section \<longrightarrow>
              (\<exists>scene'' this'' mesh2.
                 CreateAssimpMesh Z_engine sec2 (scene', this') = Some (scene'', this'') \<and>
                 meshes scene'' = meshes (new_FAssimpScene Z_engine) @ [mesh, mesh2] \<and>
                 mMaterialIndex mesh2 \<noteq> mMaterialIndex mesh \<and>
                 mMaterialIndex mesh < length (materials scene'') \<and>
                 mMaterialIndex mesh2 < length (materials scene''))"
    unfolding e by (auto simp: n)
  from 1(6) v2 ne obtain scene'' this'' mesh2 where 2:
    "CreateAssimpMesh Z_engine (example_section\<lparr>material := Some 2\<rparr>) (scene', this') = Some (scene'', this'')"
    "meshes scene'' = [mesh, mesh2]"
    "mMaterialIndex mesh2 \<noteq> mMaterialIndex mesh"
    "mMaterialIndex mesh2 < length (materials scene'')"
    unfolding e by (simp only: append_Nil) blast
  from 1(3) 1(5) have "mMaterialIndex mesh = 0" by simp
  with 1 2 show ?thesis by blast
qed

text \<open>
  The invariant of the pools holds in the scene of a new exporter and in a cleared
  scene, and every step of the preparation of an export that returns keeps it: the
  creation of one mesh, the creation of the meshes of a node, the build phase over a
  tree, the gather phase, and \<open>PrepareSceneForExport\<close> as a whole.
\<close>

lemma AddMaterial_consistent:
  assumes "AddMaterial E sec scene = Some (i, scene1)"
    and "length (materials scene) = length (uniqueMaterials scene)"
  shows "length (materials scene1) = length (uniqueMaterials scene1) \<and> i < length (materials scene1) \<and>
         length (materials scene) \<le> length (materials scene1) \<and> meshes scene1 = meshes scene"
proof (cases "FindByPredicate (\<lambda>m. m = material sec) (uniqueMaterials scene)")
  case None
  with assms show ?thesis by (auto simp: AddMaterial_def Let_def split: if_splits)
next
  case (Some j)
  from FindByPredicate_Some [OF Some] have "j < length (uniqueMaterials scene)" by simp
  with assms Some show ?thesis by (auto simp: AddMaterial_def)
qed

lemma CreateAssimpMesh_consistent:
  assumes "CreateAssimpMesh E sec (scene, this) = Some (scene', this')" and "materials_consistent scene"
  shows "materials_consistent scene'"
proof -
  from assms(1) obtain i scene1 where a: "AddMaterial E sec scene = Some (i, scene1)"
    by (auto simp: CreateAssimpMesh_def Let_def split: option.splits)
  from assms(2) have l: "length (materials scene) = length (uniqueMaterials scene)"
    by (simp add: materials_consistent_def)
  note c = AddMaterial_consistent [OF a l]
  from assms(1) a obtain mesh where m: "scene' = scene1\<lparr>meshes := meshes scene1 @ [mesh]\<rparr>"
    "mMaterialIndex mesh = i"
    by (auto simp: CreateAssimpMesh_def Let_def split: if_splits)
  show ?thesis
    using assms(2) c m by (auto simp: materials_consistent_def)
qed

lemma for_each_CreateAssimpMesh_consistent:
  assumes "for_each (CreateAssimpMesh E) secs (scene, this) = Some (scene', this')"
    and "materials_consistent scene"
  shows "materials_consistent scene'"
  using assms
proof (induction secs arbitrary: scene this)
  case Nil
  then show ?case by simp
next
  case (Cons sec secs)
  from Cons.prems(1) obtain s1 t1 where 1: "CreateAssimpMesh E sec (scene, this) = Some (s1, t1)"
    and 2: "for_each (CreateAssimpMesh E) secs (s1, t1) = Some (scene', this')"
    by (auto split: option.splits)
  from Cons.IH [OF 2 CreateAssimpMesh_consistent [OF 1 Cons.prems(2)]] show ?case .
qed

lemma CreateAssimpMeshesFromMeshData_consistent:
  assumes "CreateAssimpMeshesFromMeshData E param scene this = Some (scene', this')"
    and "materials_consistent scene"
  shows "materials_consistent scene'"
  using assms
  by (auto simp: CreateAssimpMeshesFromMeshData_def split: option.splits
        dest: for_each_CreateAssimpMesh_consistent)

lemma ProcessGatheredData_children_consistent:
  assumes "\<And>c s s' c'. c \<in> set cs \<Longrightarrow> ProcessGatheredData_Internal E param s c = Some (s', c') \<Longrightarrow>
             materials_consistent s \<Longrightarrow> materials_consistent s'"
    and "ProcessGatheredData_children E param scene cs = Some (scene', cs')"
    and "materials_consistent scene"
  shows "materials_consistent scene'"
  using assms
proof (induction cs arbitrary: scene scene' cs')
  case Nil
  then show ?case by simp
next
  case (Cons c cs)
  from Cons.prems(2) obtain s1 cs1 c1 where 1: "ProcessGatheredData_children E param scene cs = Some (s1, cs1)"
    and 2: "ProcessGatheredData_Internal E param s1 c = Some (scene', c1)"
    by (auto split: option.splits)
  have "materials_consistent s1"
    by (rule Cons.IH [OF _ 1 Cons.prems(3)]) (rule Cons.prems(1), auto)
  then show ?case
    using Cons.prems(1) [OF _ 2] by simp
qed

lemma ProcessGatheredData_Internal_consistent:
  assumes "ProcessGatheredData_Internal E param scene n = Some (scene', n')"
    and "materials_consistent scene"
  shows "materials_consistent scene'"
  using assms
proof (induction n arbitrary: scene scene' n')
  case (FAssimpNode this cs)
  from FAssimpNode.prems(1) obtain s1 t1 cs' where
    1: "CreateAssimpMeshesFromMeshData E param scene this = Some (s1, t1)"
    and 2: "ProcessGatheredData_children E param s1 cs = Some (scene', cs')"
    by (auto split: option.splits)
  show ?case
    by (rule ProcessGatheredData_children_consistent
          [OF _ 2 CreateAssimpMeshesFromMeshData_consistent [OF 1 FAssimpNode.prems(2)]])
       (rule FAssimpNode.IH)
qed

lemma GatherMeshData_at_pools:
  assumes "GatherMeshData_at param bGatherAll numToGather node scene = Some (scene', k)"
  shows "meshes scene' = meshes scene \<and> materials scene' = materials scene \<and>
         uniqueMaterials scene' = uniqueMaterials scene"
proof -
  from assms obtain n s1 t1 where g: "GatherMeshData param scene (members n) bGatherAll numToGather = Some (s1, t1, k)"
    and s: "scene' = s1\<lparr>rootNode := modify_at node (\<lambda>n. FAssimpNode t1 (children n)) (rootNode s1)\<rparr>"
    by (auto simp: GatherMeshData_at_def split: option.splits)
  from g have ok: "bGatherAll \<or> 0 < sint numToGather"
    by (auto simp: GatherMeshData_def split: if_splits)
  from g have "GatherMeshData_loop param
       (min (if bGatherAll then int (length (exportObjects (members n)))
             else sint ((of_nat (if bGatherAll then 0 else indexGatherNext (members n)) :: int32) + numToGather))
            (int (length (exportObjects (members n))))) (scene, members n, 0) = (s1, t1, k)"
    using ok by (simp add: GatherMeshData_def Let_def)
  then have "\<exists>w. s1 = scene\<lparr>numObjectsSkipped := w\<rparr>"
    by (subst (asm) GatherMeshData_loop_eq) (auto simp: Let_def)
  with s show ?thesis by auto
qed

lemma for_each_GatherMeshData_at_consistent:
  assumes "for_each (\<lambda>node s. map_option fst (GatherMeshData_at param bGatherAll numToGather node s)) nodes scene
             = Some scene'"
    and "materials_consistent scene"
  shows "materials_consistent scene'"
  using assms
proof (induction nodes arbitrary: scene)
  case Nil
  then show ?case by simp
next
  case (Cons node nodes)
  from Cons.prems(1) obtain s1 k where 1: "GatherMeshData_at param bGatherAll numToGather node scene = Some (s1, k)"
    and 2: "for_each (\<lambda>node s. map_option fst (GatherMeshData_at param bGatherAll numToGather node s)) nodes s1
              = Some scene'"
    by (auto split: option.splits)
  from GatherMeshData_at_pools [OF 1] Cons.prems(2) have "materials_consistent s1"
    by (auto simp: materials_consistent_def)
  from Cons.IH [OF 2 this] show ?case .
qed

lemma PrepareSceneForExport_consistent:
  assumes "PrepareSceneForExport E param scene = Some scene'" and "materials_consistent scene"
  shows "materials_consistent scene'"
proof -
  let ?scene2 = "scene\<lparr>numObjectsSkipped := 0,
                        allNodesHelper := GetNodesRecursive [] (rootNode scene) (allNodesHelper scene)\<rparr>"
  from assms(1) obtain s3 s4 r4 where
    1: "for_each (\<lambda>node s. map_option fst (GatherMeshData_at param True 0 node s))
          (allNodesHelper ?scene2) ?scene2 = Some s3"
    and 2: "ProcessGatheredData_Internal E param s3 (rootNode s3) = Some (s4, r4)"
    and 3: "scene' = SetDataAndPtrsToParentClass_EntireScene E param (s4\<lparr>rootNode := r4\<rparr>)"
    by (auto simp: PrepareSceneForExport_def ProcessGatheredData_Recursive_def Let_def split: option.splits)
  from assms(2) have "materials_consistent ?scene2" by (auto simp: materials_consistent_def)
  from for_each_GatherMeshData_at_consistent [OF 1 this] have "materials_consistent s3" .
  from ProcessGatheredData_Internal_consistent [OF 2 this] have "materials_consistent s4" .
  then show ?thesis
    by (auto simp: 3 materials_consistent_def SetDataAndPtrsToParentClass_EntireScene_def
          FAssimpMesh_SetDataAndPtrsToParentClass_def)
qed

lemma materials_consistent_new: "materials_consistent (new_FAssimpScene E)"
  by (simp add: materials_consistent_def new_FAssimpScene_def)

lemma materials_consistent_cleared: "materials_consistent (ClearSceneExportData scene)"
  by (simp add: materials_consistent_def ClearSceneExportData_def)

subsection \<open>The transforms of the bound nodes\<close>

lemma members_SetDataAndPtrsToParentClass:
  "members (SetDataAndPtrsToParentClass E param parent n) =
     (members n)\<lparr>mName := ToString E (name (members n)),
                  mTransformation := FTransformToAiTransform E (relativeTransform_of E param parent (members n)),
                  FAssimpNode_members.mNumMeshes := length (meshRefIndices (members n)),
                  mNumChildren := length (children n)\<rparr>"
  by (cases n) (simp add: Let_def)

lemma children_SetDataAndPtrsToParentClass:
  "children (SetDataAndPtrsToParentClass E param parent n) =
     map (SetDataAndPtrsToParentClass E param (Some (members (SetDataAndPtrsToParentClass E param parent n))))
       (children n)"
  by (cases n) (simp add: Let_def)

lemma relativeTransform_of_parent:
  "relativeTransform_of E param (Some p) this = Mul E (Inverse E (worldTransform p)) (worldTransform this)"
  by (simp add: relativeTransform_of_def)

lemma node_at_append1:
  "node_at n (p @ [i]) =
     (case node_at n p of
        None \<Rightarrow> None
      | Some par \<Rightarrow> if i < length (children par) then Some (children par ! i) else None)"
  by (induction p arbitrary: n) auto

lemma SetDataAndPtrsToParentClass_child:
  assumes "node_at n p = Some par" "i < length (children par)"
  shows "\<exists>c'. node_at (SetDataAndPtrsToParentClass E param parent n) (p @ [i]) = Some c' \<and>
           mTransformation (members c') =
             FTransformToAiTransform E
               (Mul E (Inverse E (worldTransform (members par))) (worldTransform (members (children par ! i))))"
  using assms
proof (induction p arbitrary: n parent)
  case Nil
  then have "par = n" by simp
  with Nil show ?case
    by (simp add: children_SetDataAndPtrsToParentClass members_SetDataAndPtrsToParentClass
          relativeTransform_of_parent)
next
  case (Cons j p)
  from Cons.prems have j: "j < length (children n)" and at: "node_at (children n ! j) p = Some par"
    by (auto split: if_splits)
  from Cons.IH [OF at Cons.prems(2)] j show ?case
    by (simp add: children_SetDataAndPtrsToParentClass)
qed

lemma RotationCorrectionToValue_cases:
  "RotationCorrectionToValue E c = flt E (- 90) \<or> RotationCorrectionToValue E c = flt E 0 \<or>
   RotationCorrectionToValue E c = flt E 90"
  by (cases c) simp_all

text \<open>
  C5. When a tree is bound, every node that has a parent gets as its foreign transform
  the matrix of \<open>parent.worldTransform.Inverse() * worldTransform\<close>, for every export
  parameter: the correction does not enter. The node without a parent (the root) gets the
  matrix of its world transform after the correction: each scale component is multiplied
  by the scale factor and then by -1 if the flip flag of its axis is set, and the
  rotation of the rotator (pitch of Y, yaw of Z, roll of X) is concatenated. Each
  component of that rotator is -90, 0 or 90. The engine's functions on transforms and
  the floating-point product are parameters of the statement.
\<close>

theorem SetDataAndPtrsToParentClass_transforms:
  "(node_at n p = Some par \<and> i < length (children par) \<longrightarrow>
      (\<exists>c'. node_at (SetDataAndPtrsToParentClass E param parent n) (p @ [i]) = Some c' \<and>
            mTransformation (members c') =
              FTransformToAiTransform E
                (Mul E (Inverse E (worldTransform (members par)))
                   (worldTransform (members (children par ! i)))))) \<and>
   mTransformation (members (SetDataAndPtrsToParentClass E param None n)) =
     FTransformToAiTransform E
       (case GetScale3D E (worldTransform (members n)) of
          FVector x y z \<Rightarrow>
            ConcatenateRotation E
              (SetScale3D E (worldTransform (members n))
                 (FVector
                    (if bFlipX (correction param)
                     then fmul E (fmul E x (scaleFactor (correction param))) (flt E (- 1))
                     else fmul E x (scaleFactor (correction param)))
                    (if bFlipY (correction param)
                     then fmul E (fmul E y (scaleFactor (correction param))) (flt E (- 1))
                     else fmul E y (scaleFactor (correction param)))
                    (if bFlipZ (correction param)
                     then fmul E (fmul E z (scaleFactor (correction param))) (flt E (- 1))
                     else fmul E z (scaleFactor (correction param)))))
              (Quaternion E
                 (FRotator (RotationCorrectionToValue E (PitchCorrection_Y (correction param)))
                           (RotationCorrectionToValue E (YawCorrection_Z (correction param)))
                           (RotationCorrectionToValue E (RollCorrection_X (correction param)))))) \<and>
   RotationCorrectionToValue E c \<in> {flt E (- 90), flt E 0, flt E 90}"
proof -
  have 2: "relativeTransform_of E param None (members n) =
       (case GetScale3D E (worldTransform (members n)) of
          FVector x y z \<Rightarrow>
            ConcatenateRotation E
              (SetScale3D E (worldTransform (members n))
                 (FVector
                    (if bFlipX (correction param)
                     then fmul E (fmul E x (scaleFactor (correction param))) (flt E (- 1))
                     else fmul E x (scaleFactor (correction param)))
                    (if bFlipY (correction param)
                     then fmul E (fmul E y (scaleFactor (correction param))) (flt E (- 1))
                     else fmul E y (scaleFactor (correction param)))
                    (if bFlipZ (correction param)
                     then fmul E (fmul E z (scaleFactor (correction param))) (flt E (- 1))
                     else fmul E z (scaleFactor (correction param)))))
              (Quaternion E
                 (FRotator (RotationCorrectionToValue E (PitchCorrection_Y (correction param)))
                           (RotationCorrectionToValue E (YawCorrection_Z (correction param)))
                           (RotationCorrectionToValue E (RollCorrection_X (correction param))))))"
    by (simp add: relativeTransform_of_def Let_def split: FVector.splits)
  show ?thesis
    using SetDataAndPtrsToParentClass_child [of n p par i E param parent]
      RotationCorrectionToValue_cases [of E c]
    by (simp add: members_SetDataAndPtrsToParentClass 2)
qed


theorem SetDataAndPtrsToParentClass_transforms_witness:
  "(\<exists>c'. node_at (SetDataAndPtrsToParentClass Z_engine example_param None example_placed_tree) [0] = Some c' \<and>
         mTransformation (members c') =
           FTransformToAiTransform Z_engine
             (Mul Z_engine (Inverse Z_engine (FVector 3 4 5, FVector 1 2 3, []))
                (FVector (- 1) 1 1, FVector 7 0 0, []))) \<and>
   mTransformation (members (SetDataAndPtrsToParentClass Z_engine example_param None example_placed_tree)) =
     FTransformToAiTransform Z_engine
       (FVector 6 (- 8) 10, FVector 1 2 3, [FQuat 90 0 0 0])"
proof -
  have at: "node_at example_placed_tree [] = Some example_placed_tree \<and>
            0 < length (children example_placed_tree)"
    by (simp add: example_placed_tree_def)
  have w: "worldTransform (members example_placed_tree) = (FVector 3 4 5, FVector 1 2 3, [])"
    "worldTransform (members (children example_placed_tree ! 0)) = (FVector (- 1) 1 1, FVector 7 0 0, [])"
    by (simp_all add: example_placed_tree_def)
  have c: "GetScale3D Z_engine (FVector 3 4 5, FVector 1 2 3, []) = FVector 3 4 5"
    "SetScale3D Z_engine (FVector 3 4 5, FVector 1 2 3, []) v = (v, FVector 1 2 3, [])"
    "ConcatenateRotation Z_engine (v, FVector 1 2 3, []) q = (v, FVector 1 2 3, [q])"
    "Quaternion Z_engine (FRotator pitch yaw roll) = FQuat roll pitch yaw 0"
    "fmul Z_engine a b = a * b" "flt Z_engine k = k"
    for v q pitch yaw roll a b k
    by (simp_all add: Z_engine_def)
  have p: "bFlipX (correction example_param) = False" "bFlipY (correction example_param) = True"
    "bFlipZ (correction example_param) = False" "scaleFactor (correction example_param) = 2"
    "RollCorrection_X (correction example_param) = Plus_90"
    "PitchCorrection_Y (correction example_param) = Zero"
    "YawCorrection_Z (correction example_param) = Zero"
    by (simp_all add: example_param_def)
  from SetDataAndPtrsToParentClass_transforms
         [of example_placed_tree "[]" example_placed_tree 0 Z_engine example_param None]
       at
  show ?thesis
    by (simp add: w c p)
qed

subsection \<open>An exporter that is exporting\<close>

lemma PreExportWork_busy:
  "bIsExporting exporter \<Longrightarrow>
   PreExportWork plat param exporter result =
     (False, exporter, result\<lparr>error := NewLineAndAppend (error result) ''Already exporting!''\<rparr>)"
  by (simp add: PreExportWork_def)

text \<open>
  C8. While the exporter is exporting (\<open>bIsExporting\<close>), \<open>Export\<close> returns at once: the
  result has \<open>bSuccess = false\<close> and the line \<open>Already exporting!\<close> appended to its
  errors, and the exporter, with its scene, its meshes, its materials and its tree, is
  as it was. \<open>Export_Async_Cpp\<close> does the same with the result that the exporter keeps
  for asynchronous exports, and changes nothing else. \<open>AddNode\<close>, \<open>AddExportObject\<close>,
  \<open>AddExportObjects\<close>, \<open>AddObjectIfExportable\<close> and \<open>AddObjectsIfExportable\<close> return
  without changing the exporter; \<open>AddObjectIfExportable\<close> returns false, and
  \<open>AddObjectsIfExportable\<close> leaves \<open>notExportable\<close> as it was.
\<close>

theorem busy_exporter_rejects:
  assumes "bIsExporting exporter"
  shows "Export E plat param (exporter, result) =
           Some (exporter,
                 result\<lparr>error := NewLineAndAppend (error result) ''Already exporting!'',
                        bSuccess := False\<rparr>) \<and>
         Export_Async_Cpp plat asyncParam exporter =
           (exporter\<lparr>asyncResult :=
                       (asyncResult exporter)
                         \<lparr>error := NewLineAndAppend (error (asyncResult exporter)) ''Already exporting!'',
                          bSuccess := False\<rparr>\<rparr>,
            Some ((asyncResult exporter)
                    \<lparr>error := NewLineAndAppend (error (asyncResult exporter)) ''Already exporting!'',
                     bSuccess := False\<rparr>)) \<and>
         meshes (scene_member (fst (Export_Async_Cpp plat asyncParam exporter))) = meshes (scene_member exporter) \<and>
         materials (scene_member (fst (Export_Async_Cpp plat asyncParam exporter))) = materials (scene_member exporter) \<and>
         rootNode (scene_member (fst (Export_Async_Cpp plat asyncParam exporter))) = rootNode (scene_member exporter) \<and>
         AddNode E hierarchicalName nodeTransformWS exporter = exporter \<and>
         AddExportObject E exportable bOverrideNode hierarchicalName exporter = exporter \<and>
         AddExportObjects E exportables bOverrideNode hierarchicalName exporter = exporter \<and>
         AddObjectIfExportable E object bOverrideNode hierarchicalName exporter = (exporter, False) \<and>
         AddObjectsIfExportable E objects bOverrideNode hierarchicalName notExportable exporter =
           (exporter, notExportable)"
  using assms
  by (simp add: Export_def Export_Async_Cpp_def PreExportWork_busy AddNode_def AddExportObject_def
        AddExportObjects_def AddObjectIfExportable_def AddObjectsIfExportable_def)

lemma example_busy_exporter_busy: "bIsExporting example_busy_exporter"
  by (simp add: example_busy_exporter_def Export_Async_Cpp_def PreExportWork_def AddExportObject_def
        new_URuntimeMeshExporter_def example_platform_def example_param_def Let_def split: prod.splits)

theorem busy_exporter_rejects_witness:
  "bIsExporting example_busy_exporter \<and>
   Export Z_engine example_platform example_param
     (example_busy_exporter, \<lparr>bSuccess = True, error = [], numObjectsSkipped = 0\<rparr>) =
     Some (example_busy_exporter, \<lparr>bSuccess = False, error = ''Already exporting!'', numObjectsSkipped = 0\<rparr>) \<and>
   AddNode Z_engine ''a.c'' (FVector 1 1 1, FVector 0 0 0, []) example_busy_exporter = example_busy_exporter \<and>
   AddExportObject Z_engine (example_objects ! 1) False [] example_busy_exporter = example_busy_exporter"
  using busy_exporter_rejects [OF example_busy_exporter_busy,
          where E = Z_engine and plat = example_platform and param = example_param
            and result = "\<lparr>bSuccess = True, error = [], numObjectsSkipped = 0\<rparr>"
            and hierarchicalName = "''a.c''" and nodeTransformWS = "(FVector 1 1 1, FVector 0 0 0, [])"
            and exportable = "example_objects ! 1" and bOverrideNode = False]
        busy_exporter_rejects [OF example_busy_exporter_busy,
          where E = Z_engine and hierarchicalName = "[]"
            and exportable = "example_objects ! 1" and bOverrideNode = False]
    example_busy_exporter_busy
  by (simp add: NewLineAndAppend_def)

subsection \<open>The winding order of imported triangles\<close>

lemma ImportMeshesOfNode_faces_eq:
  assumes "\<forall>face \<in> set fs. length face = 3"
  shows "ImportMeshesOfNode_faces bFlip fs tris =
           Some (tris @ concat (map (\<lambda>face. if bFlip then [face ! 0, face ! 2, face ! 1]
                                              else [face ! 0, face ! 1, face ! 2]) fs))"
proof (cases bFlip)
  case True
  have "ImportMeshesOfNode_faces True fs tris =
          Some (tris @ concat (map (\<lambda>face. [face ! 0, face ! 2, face ! 1]) fs))"
    using assms by (induction fs arbitrary: tris) simp_all
  with True show ?thesis by simp
next
  case False
  have "ImportMeshesOfNode_faces False fs tris =
          Some (tris @ concat (map (\<lambda>face. [face ! 0, face ! 1, face ! 2]) fs))"
    using assms by (induction fs arbitrary: tris) simp_all
  with False show ?thesis by simp
qed

text \<open>
  C7. Importing a mesh whose faces all have 3 indices (and whose material index is inside
  the materials of the scene) returns a section. When the product of the three
  components of the scale of the node transform, as the engine computes it, is less than
  0, the triangle indices of the section are, face by face, the indices number 0, 2 and
  1 of the face; otherwise they are the indices number 0, 1 and 2. So the two results
  differ by the exchange of the second and the third index of every face.
\<close>

theorem ImportMeshesOfNode_winding_order:
  assumes "\<forall>face \<in> set (mFaces mesh). length face = 3"
    and "aiMesh.mMaterialIndex mesh < length (mMaterials scene)"
  shows "\<exists>sec. ImportMeshesOfNode_section E scene mesh nodeTransform = Some sec \<and>
           FRuntimeMeshImportSectionInfo.triangles sec =
             concat (map (\<lambda>face.
                            if (case GetScale3D E nodeTransform of
                                  FVector x y z \<Rightarrow> fless E (fmul E (fmul E x y) z) (flt E 0))
                            then [face ! 0, face ! 2, face ! 1]
                            else [face ! 0, face ! 1, face ! 2])
                       (mFaces mesh))"
  using assms
  by (simp add: ImportMeshesOfNode_section_def Let_def ImportMeshesOfNode_faces_eq)

theorem ImportMeshesOfNode_winding_order_witness:
  "(\<exists>sec. ImportMeshesOfNode_section Z_engine example_aiScene (aiScene.mMeshes example_aiScene ! 0)
            (FVector (- 1) 1 1, FVector 0 0 0, []) = Some sec \<and>
          FRuntimeMeshImportSectionInfo.triangles sec = [0, 2, 1, 2, 3, 1]) \<and>
   (\<exists>sec. ImportMeshesOfNode_section Z_engine example_aiScene (aiScene.mMeshes example_aiScene ! 0)
            (FVector 1 1 1, FVector 0 0 0, []) = Some sec \<and>
          FRuntimeMeshImportSectionInfo.triangles sec = [0, 1, 2, 2, 1, 3])"
proof -
  have m: "mFaces (aiScene.mMeshes example_aiScene ! 0) = [[0, 1, 2], [2, 1, 3]]"
    "aiMesh.mMaterialIndex (aiScene.mMeshes example_aiScene ! 0) = 0"
    "mMaterials example_aiScene = [''Wood'']"
    by (simp_all add: example_aiScene_def)
  have h: "\<forall>face \<in> set (mFaces (aiScene.mMeshes example_aiScene ! 0)). length face = 3"
    "aiMesh.mMaterialIndex (aiScene.mMeshes example_aiScene ! 0) < length (mMaterials example_aiScene)"
    by (simp_all add: m)
  have e: "GetScale3D Z_engine (s, t, qs) = s" "fmul Z_engine a b = a * b" "flt Z_engine k = k"
    "fless Z_engine a b = (a < b)" for s t qs a b k
    by (simp_all add: Z_engine_def)
  show ?thesis
    using ImportMeshesOfNode_winding_order [OF h, of Z_engine "(FVector (- 1) 1 1, FVector 0 0 0, [])"]
      ImportMeshesOfNode_winding_order [OF h, of Z_engine "(FVector 1 1 1, FVector 0 0 0, [])"]
    by (simp add: m e)
qed

end
